theory Spec2Isabelle
  imports Main "HOL-Library.Char_ord" "HOL-Library.List_Lexorder" "HOL-Library.Option_ord"
    "HOL-Library.Sublist" "HOL-Library.Multiset"
begin

section \<open>Text values, case folding and the LIKE operator\<close>

text \<open>
  A text column holds a string or NULL. Characters are the code points below 256: ASCII
  and the Latin-1 supplement. SQLite's built-in \<open>LOWER\<close> and \<open>LIKE\<close> fold the letters A-Z
  only (\<open>lower_char\<close>). JavaScript's \<open>toLowerCase\<close> folds the capital letters of the
  Latin-1 supplement as well: the code points 0xC0 to 0xDE without the multiplication
  sign 0xD7 (\<open>latin1_lower_char\<close>).
\<close>

type_synonym sql_text = "string option"

definition lower_char :: "char \<Rightarrow> char" where
  "lower_char c = (let n = (of_char c :: nat) in if 65 \<le> n \<and> n \<le> 90 then char_of (n + 32) else c)"

definition latin1_lower_char :: "char \<Rightarrow> char" where
  "latin1_lower_char c =
     (let n = (of_char c :: nat) in
      if (65 \<le> n \<and> n \<le> 90) \<or> (192 \<le> n \<and> n \<le> 222 \<and> n \<noteq> 215) then char_of (n + 32) else c)"

definition upper_char :: "char \<Rightarrow> char" where
  "upper_char c = (let n = (of_char c :: nat) in if 97 \<le> n \<and> n \<le> 122 then char_of (n - 32) else c)"

text \<open>
  \<open>String.prototype.toLowerCase\<close> and \<open>String.prototype.toUpperCase\<close>. The code compares
  the result of \<open>toUpperCase\<close> with two ASCII literals only, and upper-casing a character
  other than a-z gives no ASCII letter in JavaScript, except the sharp s, which gives SS,
  a pair neither literal contains: \<open>toUpperCase\<close> folds a-z and leaves the rest.
\<close>

definition toLowerCase :: "string \<Rightarrow> string" where
  "toLowerCase s = map latin1_lower_char s"

definition toUpperCase :: "string \<Rightarrow> string" where
  "toUpperCase s = map upper_char s"

text \<open>The SQL function \<open>LOWER\<close>; NULL stays NULL.\<close>

definition sql_lower :: "sql_text \<Rightarrow> sql_text" where
  "sql_lower v = map_option (map lower_char) v"

text \<open>
  \<open>String.prototype.trim\<close>: white space is removed at both ends. The white-space
  characters of the 8-bit range are TAB, LF, VT, FF, CR, SPACE and the no-break space.
\<close>

definition is_space :: "char \<Rightarrow> bool" where
  "is_space c = (let n = (of_char c :: nat) in (9 \<le> n \<and> n \<le> 13) \<or> n = 32 \<or> n = 160)"

definition trim :: "string \<Rightarrow> string" where
  "trim s = rev (dropWhile is_space (rev (dropWhile is_space s)))"

text \<open>
  The SQL operator \<open>subject LIKE pattern\<close> on two strings, with no ESCAPE clause:
  \<open>%\<close> in the pattern stands for any run of characters, \<open>_\<close> for exactly one character,
  and every other pattern character matches itself up to the case of ASCII letters.
  The first argument is the pattern.
\<close>

fun like :: "string \<Rightarrow> string \<Rightarrow> bool" where
  "like [] [] = True"
| "like [] (c # s) = False"
| "like (p # ps) [] = (p = CHR ''%'' \<and> like ps [])"
| "like (p # ps) (c # s) =
     (if p = CHR ''%'' then like ps (c # s) \<or> like (p # ps) s
      else (p = CHR ''_'' \<or> lower_char p = lower_char c) \<and> like ps s)"

text \<open>\<open>LIKE\<close> on nullable operands: a NULL operand makes the condition not true.\<close>

definition sql_like :: "sql_text \<Rightarrow> string \<Rightarrow> bool" where
  "sql_like v pat = (case v of None \<Rightarrow> False | Some s \<Rightarrow> like pat s)"

text \<open>
  Reading of the words "contains q as a case-insensitive substring": some run of
  consecutive characters of the text equals \<open>q\<close> once both are folded to lower case,
  accented letters included. A NULL text contains nothing.
\<close>

definition contains_ci :: "string \<Rightarrow> sql_text \<Rightarrow> bool" where
  "contains_ci q v = (case v of None \<Rightarrow> False
                      | Some s \<Rightarrow> sublist (map latin1_lower_char q) (map latin1_lower_char s))"

section \<open>The data store\<close>

record norma =
  n_id :: int
  n_nome :: sql_text
  n_link :: sql_text
  n_preambulo :: sql_text

record tipo =
  t_id :: int
  t_nome :: sql_text

record modalidade =
  m_id :: int
  m_tipo_id :: "int option"
  m_nome :: sql_text
  m_proporcao :: sql_text
  m_forma :: sql_text
  m_especificidades :: sql_text
  m_vantagens :: sql_text
  m_desvantagens :: sql_text
  m_observacao :: sql_text
  m_documentos :: sql_text

record norma_tipo =
  nt_tipo_id :: "int option"
  nt_norma_id :: "int option"

text \<open>The four tables, each a list of rows in storage order.\<close>

record store =
  normas :: "norma list"
  tipos_compensacao :: "tipo list"
  modalidades :: "modalidade list"
  normas_tipos_compensacao :: "norma_tipo list"


text \<open>
  The body of a modality request (\<open>p = req.body\<close>): nine fields, each a value or null.
\<close>

record modalidade_body =
  p_tipo_id :: "int option"
  p_nome :: sql_text
  p_proporcao :: sql_text
  p_forma :: sql_text
  p_especificidades :: sql_text
  p_vantagens :: sql_text
  p_desvantagens :: sql_text
  p_observacao :: sql_text
  p_documentos :: sql_text

text \<open>
  The SQL statements of the server, one constructor for each statement text, carrying the
  bound arguments in the order of the placeholders. An \<open>:id\<close> path segment is bound as
  the integer it denotes under the column's affinity; a segment that denotes no integer
  equals no id and behaves like an integer absent from the table.
\<close>

datatype statement =
    SELECT_normas
  | SELECT_normas_WHERE string string string
  | SELECT_tipos_compensacao
  | SELECT_modalidades
  | SELECT_normas_JOIN int
  | INSERT_normas sql_text sql_text sql_text
  | UPDATE_normas sql_text sql_text sql_text int
  | DELETE_normas int
  | INSERT_tipos_compensacao sql_text
  | UPDATE_tipos_compensacao sql_text int
  | DELETE_tipos_compensacao int
  | INSERT_normas_tipos_compensacao "int option" "int option"
  | INSERT_modalidades modalidade_body
  | UPDATE_modalidades modalidade_body int
  | DELETE_modalidades int

datatype row = Norma norma | Tipo tipo | Modalidade modalidade

record result_set =
  rows :: "row list"
  rowsAffected :: nat
  lastInsertRowid :: "int option"

text \<open>The id an insert generates: one above the largest id of the table.\<close>

definition new_id :: "int list \<Rightarrow> int" where
  "new_id ids = fold max ids 0 + 1"

definition norma_matches :: "string \<Rightarrow> string \<Rightarrow> string \<Rightarrow> norma \<Rightarrow> bool" where
  "norma_matches p1 p2 p3 n =
     (sql_like (sql_lower (n_nome n)) p1 \<or> sql_like (sql_lower (n_link n)) p2
      \<or> sql_like (sql_lower (n_preambulo n)) p3)"

definition set_modalidade :: "modalidade_body \<Rightarrow> modalidade \<Rightarrow> modalidade" where
  "set_modalidade p m =
     m\<lparr>m_tipo_id := p_tipo_id p, m_nome := p_nome p, m_proporcao := p_proporcao p,
       m_forma := p_forma p, m_especificidades := p_especificidades p,
       m_vantagens := p_vantagens p, m_desvantagens := p_desvantagens p,
       m_observacao := p_observacao p, m_documentos := p_documentos p\<rparr>"

text \<open>
  What a statement does when the store carries it out. \<open>ORDER BY nome\<close> sorts by the
  binary collation with NULL first, which is the order of \<open>string option\<close>; rows with
  equal names keep their storage order.
\<close>

fun run :: "statement \<Rightarrow> store \<Rightarrow> result_set \<times> store" where
  "run SELECT_normas s =
     (\<lparr>rows = map Norma (sort_key n_nome (normas s)), rowsAffected = 0,
       lastInsertRowid = None\<rparr>, s)"
| "run (SELECT_normas_WHERE p1 p2 p3) s =
     (\<lparr>rows = map Norma (sort_key n_nome (filter (norma_matches p1 p2 p3) (normas s))),
       rowsAffected = 0, lastInsertRowid = None\<rparr>, s)"
| "run SELECT_tipos_compensacao s =
     (\<lparr>rows = map Tipo (tipos_compensacao s), rowsAffected = 0, lastInsertRowid = None\<rparr>, s)"
| "run SELECT_modalidades s =
     (\<lparr>rows = map Modalidade (modalidades s), rowsAffected = 0, lastInsertRowid = None\<rparr>, s)"
| "run (SELECT_normas_JOIN tid) s =
     (\<lparr>rows = map Norma (concat (map (\<lambda>n. map (\<lambda>ntc. n)
                (filter (\<lambda>ntc. nt_norma_id ntc = Some (n_id n) \<and> nt_tipo_id ntc = Some tid)
                   (normas_tipos_compensacao s))) (normas s))),
       rowsAffected = 0, lastInsertRowid = None\<rparr>, s)"
| "run (INSERT_normas nome link preambulo) s =
     (let i = new_id (map n_id (normas s)) in
      (\<lparr>rows = [], rowsAffected = 1, lastInsertRowid = Some i\<rparr>,
       s\<lparr>normas := normas s @ [\<lparr>n_id = i, n_nome = nome, n_link = link,
                                  n_preambulo = preambulo\<rparr>]\<rparr>))"
| "run (UPDATE_normas nome link preambulo i) s =
     (\<lparr>rows = [], rowsAffected = length (filter (\<lambda>n. n_id n = i) (normas s)),
       lastInsertRowid = None\<rparr>,
      s\<lparr>normas := map (\<lambda>n. if n_id n = i
                              then n\<lparr>n_nome := nome, n_link := link, n_preambulo := preambulo\<rparr>
                              else n) (normas s)\<rparr>)"
| "run (DELETE_normas i) s =
     (\<lparr>rows = [], rowsAffected = length (filter (\<lambda>n. n_id n = i) (normas s)),
       lastInsertRowid = None\<rparr>,
      s\<lparr>normas := filter (\<lambda>n. n_id n \<noteq> i) (normas s)\<rparr>)"
| "run (INSERT_tipos_compensacao nome) s =
     (let i = new_id (map t_id (tipos_compensacao s)) in
      (\<lparr>rows = [], rowsAffected = 1, lastInsertRowid = Some i\<rparr>,
       s\<lparr>tipos_compensacao := tipos_compensacao s @ [\<lparr>t_id = i, t_nome = nome\<rparr>]\<rparr>))"
| "run (UPDATE_tipos_compensacao nome i) s =
     (\<lparr>rows = [], rowsAffected = length (filter (\<lambda>t. t_id t = i) (tipos_compensacao s)),
       lastInsertRowid = None\<rparr>,
      s\<lparr>tipos_compensacao := map (\<lambda>t. if t_id t = i then t\<lparr>t_nome := nome\<rparr> else t)
                                 (tipos_compensacao s)\<rparr>)"
| "run (DELETE_tipos_compensacao i) s =
     (\<lparr>rows = [], rowsAffected = length (filter (\<lambda>t. t_id t = i) (tipos_compensacao s)),
       lastInsertRowid = None\<rparr>,
      s\<lparr>tipos_compensacao := filter (\<lambda>t. t_id t \<noteq> i) (tipos_compensacao s)\<rparr>)"
| "run (INSERT_normas_tipos_compensacao tid nid) s =
     (\<lparr>rows = [], rowsAffected = 1,
       lastInsertRowid = Some (int (length (normas_tipos_compensacao s)) + 1)\<rparr>,
      s\<lparr>normas_tipos_compensacao :=
          normas_tipos_compensacao s @ [\<lparr>nt_tipo_id = tid, nt_norma_id = nid\<rparr>]\<rparr>)"
| "run (INSERT_modalidades p) s =
     (let i = new_id (map m_id (modalidades s)) in
      (\<lparr>rows = [], rowsAffected = 1, lastInsertRowid = Some i\<rparr>,
       s\<lparr>modalidades := modalidades s @
           [\<lparr>m_id = i, m_tipo_id = p_tipo_id p, m_nome = p_nome p,
             m_proporcao = p_proporcao p, m_forma = p_forma p,
             m_especificidades = p_especificidades p, m_vantagens = p_vantagens p,
             m_desvantagens = p_desvantagens p, m_observacao = p_observacao p,
             m_documentos = p_documentos p\<rparr>]\<rparr>))"
| "run (UPDATE_modalidades p i) s =
     (\<lparr>rows = [], rowsAffected = length (filter (\<lambda>m. m_id m = i) (modalidades s)),
       lastInsertRowid = None\<rparr>,
      s\<lparr>modalidades := map (\<lambda>m. if m_id m = i then set_modalidade p m else m)
                           (modalidades s)\<rparr>)"
| "run (DELETE_modalidades i) s =
     (\<lparr>rows = [], rowsAffected = length (filter (\<lambda>m. m_id m = i) (modalidades s)),
       lastInsertRowid = None\<rparr>,
      s\<lparr>modalidades := filter (\<lambda>m. m_id m \<noteq> i) (modalidades s)\<rparr>)"

text \<open>
  \<open>db.execute\<close>: the driver either rejects with an error carrying a message, or carries
  the statement out. Why a statement fails (a constraint of the schema, an argument the
  driver refuses, a lost connection) is decided outside the server, so the failure is an
  input: \<open>Some m\<close> is a failure with message \<open>m\<close>, which leaves the tables as they were.
\<close>

definition db_execute :: "string option \<Rightarrow> statement \<Rightarrow> store \<Rightarrow> (string + result_set) \<times> store" where
  "db_execute failure stmt s =
     (case failure of
        Some m \<Rightarrow> (Inl m, s)
      | None \<Rightarrow> (case run stmt s of (r, s') \<Rightarrow> (Inr r, s')))"

section \<open>The REST API layer\<close>

text \<open>
  JSON values. No route computes with a number: a number is kept as the text that
  stands for it.
\<close>

datatype json =
    JNull
  | JBool bool
  | JNumber string
  | JString string
  | JArray "json list"
  | JObject "(string \<times> json) list"

text \<open>
  A JSON response: the status code and the body that \<open>res.json\<close> serialises. \<open>Data\<close> is
  \<open>{data: rows}\<close>, \<open>Error\<close> is \<open>{error: m}\<close>, \<open>Message\<close> is \<open>{message: m}\<close>, \<open>Message_id\<close> is
  \<open>{message: m, id: i}\<close> and \<open>Json v\<close> is the serialisation of the value \<open>v\<close>.
\<close>

datatype body =
    Data "row list"
  | Error string
  | Message string
  | Message_id string "int option"
  | Json json

record response =
  status :: nat
  body :: body

text \<open>
  A value of \<open>req.query\<close>: a string, or an array of strings when the parameter is repeated
  in the URL. An absent parameter is \<open>None\<close>. Keys written with brackets, which the query
  parser turns into objects, are left out.
\<close>

datatype query_value = QStr string | QArr "string list"

datatype js_error = TypeError string

text \<open>Truthiness of a query value: absent and the empty string are falsy.\<close>

fun truthy :: "query_value option \<Rightarrow> bool" where
  "truthy None = False"
| "truthy (Some (QStr v)) = (v \<noteq> [])"
| "truthy (Some (QArr vs)) = True"

text \<open>
  The four listing routes end in the same two branches: \<open>{data: result.rows}\<close> with
  status 200, or the message of the caught error with status 400.
\<close>

definition send_rows :: "(string + result_set) \<times> store \<Rightarrow> response \<times> store" where
  "send_rows r =
     (case r of
        (Inr result, s') \<Rightarrow> (\<lparr>status = 200, body = Data (rows result)\<rparr>, s')
      | (Inl message, s') \<Rightarrow> (\<lparr>status = 400, body = Error message\<rparr>, s'))"

text \<open>
  The writing routes end in a fixed message with the route's success status, or the
  message of the caught error with status 400.
\<close>

definition send_message :: "nat \<Rightarrow> string \<Rightarrow> (string + result_set) \<times> store \<Rightarrow> response \<times> store" where
  "send_message code text r =
     (case r of
        (Inr result, s') \<Rightarrow> (\<lparr>status = code, body = Message text\<rparr>, s')
      | (Inl message, s') \<Rightarrow> (\<lparr>status = 400, body = Error message\<rparr>, s'))"

text \<open>
  \<open>GET /api/v2/normas\<close>. The search term is lowered and wrapped in \<open>%\<close> only when it is
  truthy; calling \<open>toLowerCase\<close> on an array throws before the \<open>try\<close> block is entered.
\<close>

definition get_normas :: "query_value option \<Rightarrow> string option \<Rightarrow> store \<Rightarrow> (js_error + response) \<times> store" where
  "get_normas searchTerm failure s =
     (if truthy searchTerm then
        (case searchTerm of
           Some (QStr q) \<Rightarrow>
             (let lowerSearchTerm = ''%'' @ toLowerCase q @ ''%'' in
              map_prod Inr (\<lambda>s'. s')
                (send_rows (db_execute failure
                   (SELECT_normas_WHERE lowerSearchTerm lowerSearchTerm lowerSearchTerm) s)))
         | _ \<Rightarrow> (Inl (TypeError ''searchTerm.toLowerCase is not a function''), s))
      else map_prod Inr (\<lambda>s'. s') (send_rows (db_execute failure SELECT_normas s)))"

definition get_tipos :: "string option \<Rightarrow> store \<Rightarrow> response \<times> store" where
  "get_tipos failure s = send_rows (db_execute failure SELECT_tipos_compensacao s)"

definition get_modalidades :: "string option \<Rightarrow> store \<Rightarrow> response \<times> store" where
  "get_modalidades failure s = send_rows (db_execute failure SELECT_modalidades s)"

definition get_tipos_normas :: "int \<Rightarrow> string option \<Rightarrow> store \<Rightarrow> response \<times> store" where
  "get_tipos_normas i failure s = send_rows (db_execute failure (SELECT_normas_JOIN i) s)"

definition post_normas :: "sql_text \<Rightarrow> sql_text \<Rightarrow> sql_text \<Rightarrow> string option \<Rightarrow> store \<Rightarrow> response \<times> store" where
  "post_normas nome link preambulo failure s =
     send_message 201 ''Norma criada com sucesso''
       (db_execute failure (INSERT_normas nome link preambulo) s)"

definition put_normas :: "int \<Rightarrow> sql_text \<Rightarrow> sql_text \<Rightarrow> sql_text \<Rightarrow> string option \<Rightarrow> store \<Rightarrow> response \<times> store" where
  "put_normas i nome link preambulo failure s =
     send_message 200 ''Norma atualizada com sucesso''
       (db_execute failure (UPDATE_normas nome link preambulo i) s)"

definition delete_normas :: "int \<Rightarrow> string option \<Rightarrow> store \<Rightarrow> response \<times> store" where
  "delete_normas i failure s =
     send_message 200 ''Norma deletada com sucesso'' (db_execute failure (DELETE_normas i) s)"

definition post_tipos :: "sql_text \<Rightarrow> string option \<Rightarrow> store \<Rightarrow> response \<times> store" where
  "post_tipos nome failure s =
     (case db_execute failure (INSERT_tipos_compensacao nome) s of
        (Inr result, s') \<Rightarrow>
          (\<lparr>status = 201,
            body = Message_id (''Tipo de compensa'' @ [CHR 0xE7, CHR 0xE3] @ ''o criado com sucesso'')
                     (lastInsertRowid result)\<rparr>, s')
      | (Inl message, s') \<Rightarrow> (\<lparr>status = 400, body = Error message\<rparr>, s'))"

definition put_tipos :: "int \<Rightarrow> sql_text \<Rightarrow> string option \<Rightarrow> store \<Rightarrow> response \<times> store" where
  "put_tipos i nome failure s =
     send_message 200 ''Tipo atualizado com sucesso''
       (db_execute failure (UPDATE_tipos_compensacao nome i) s)"

definition delete_tipos :: "int \<Rightarrow> string option \<Rightarrow> store \<Rightarrow> response \<times> store" where
  "delete_tipos i failure s =
     send_message 200 ''Tipo deletado com sucesso''
       (db_execute failure (DELETE_tipos_compensacao i) s)"

definition post_normas_tipos_compensacao :: "int option \<Rightarrow> int option \<Rightarrow> string option \<Rightarrow> store \<Rightarrow> response \<times> store" where
  "post_normas_tipos_compensacao tipo_id norma_id failure s =
     send_message 201 (''Associa'' @ [CHR 0xE7, CHR 0xE3] @ ''o criada com sucesso'')
       (db_execute failure (INSERT_normas_tipos_compensacao tipo_id norma_id) s)"

definition post_modalidades :: "modalidade_body \<Rightarrow> string option \<Rightarrow> store \<Rightarrow> response \<times> store" where
  "post_modalidades p failure s =
     send_message 201 ''Modalidade criada com sucesso''
       (db_execute failure (INSERT_modalidades p) s)"

definition put_modalidades :: "int \<Rightarrow> modalidade_body \<Rightarrow> string option \<Rightarrow> store \<Rightarrow> response \<times> store" where
  "put_modalidades i p failure s =
     send_message 200 ''Modalidade atualizada com sucesso''
       (db_execute failure (UPDATE_modalidades p i) s)"

definition delete_modalidades :: "int \<Rightarrow> string option \<Rightarrow> store \<Rightarrow> response \<times> store" where
  "delete_modalidades i failure s =
     send_message 200 ''Modalidade deletada com sucesso''
       (db_execute failure (DELETE_modalidades i) s)"

text \<open>
  The requests of the store-backed routes, and the server as one function of the request,
  the failure the driver reports (if any) and the tables.
\<close>

datatype request =
    GET_normas "query_value option"
  | GET_tipos
  | GET_modalidades
  | GET_tipos_normas int
  | POST_normas sql_text sql_text sql_text
  | PUT_normas int sql_text sql_text sql_text
  | DELETE_normas_id int
  | POST_tipos sql_text
  | PUT_tipos int sql_text
  | DELETE_tipos_id int
  | POST_normas_tipos_compensacao "int option" "int option"
  | POST_modalidades modalidade_body
  | PUT_modalidades int modalidade_body
  | DELETE_modalidades_id int

fun handle :: "request \<Rightarrow> string option \<Rightarrow> store \<Rightarrow> (js_error + response) \<times> store" where
  "handle (GET_normas q) f s = get_normas q f s"
| "handle GET_tipos f s = map_prod Inr (\<lambda>s'. s') (get_tipos f s)"
| "handle GET_modalidades f s = map_prod Inr (\<lambda>s'. s') (get_modalidades f s)"
| "handle (GET_tipos_normas i) f s = map_prod Inr (\<lambda>s'. s') (get_tipos_normas i f s)"
| "handle (POST_normas a b c) f s = map_prod Inr (\<lambda>s'. s') (post_normas a b c f s)"
| "handle (PUT_normas i a b c) f s = map_prod Inr (\<lambda>s'. s') (put_normas i a b c f s)"
| "handle (DELETE_normas_id i) f s = map_prod Inr (\<lambda>s'. s') (delete_normas i f s)"
| "handle (POST_tipos a) f s = map_prod Inr (\<lambda>s'. s') (post_tipos a f s)"
| "handle (PUT_tipos i a) f s = map_prod Inr (\<lambda>s'. s') (put_tipos i a f s)"
| "handle (DELETE_tipos_id i) f s = map_prod Inr (\<lambda>s'. s') (delete_tipos i f s)"
| "handle (POST_normas_tipos_compensacao t n) f s =
     map_prod Inr (\<lambda>s'. s') (post_normas_tipos_compensacao t n f s)"
| "handle (POST_modalidades p) f s = map_prod Inr (\<lambda>s'. s') (post_modalidades p f s)"
| "handle (PUT_modalidades i p) f s = map_prod Inr (\<lambda>s'. s') (put_modalidades i p f s)"
| "handle (DELETE_modalidades_id i) f s = map_prod Inr (\<lambda>s'. s') (delete_modalidades i f s)"

subsection \<open>The delete routes of the sqlite3 variant of the server\<close>

text \<open>
  The second server of the source file runs the same statements through \<open>db.run\<close>, whose
  callback sees the number of affected rows as \<open>this.changes\<close>. Its delete routes answer
  404 when that number is zero.
\<close>

definition send_deleted :: "string \<Rightarrow> string \<Rightarrow> (string + result_set) \<times> store \<Rightarrow> response \<times> store" where
  "send_deleted missing text r =
     (case r of
        (Inl message, s') \<Rightarrow> (\<lparr>status = 400, body = Error message\<rparr>, s')
      | (Inr result, s') \<Rightarrow>
          (if rowsAffected result = 0 then (\<lparr>status = 404, body = Message missing\<rparr>, s')
           else (\<lparr>status = 200, body = Message text\<rparr>, s')))"

definition delete_normas_sqlite3 :: "int \<Rightarrow> string option \<Rightarrow> store \<Rightarrow> response \<times> store" where
  "delete_normas_sqlite3 i failure s =
     send_deleted (''Norma n'' @ [CHR 0xE3] @ ''o encontrada.'') ''Norma deletada com sucesso''
       (db_execute failure (DELETE_normas i) s)"

definition delete_tipos_sqlite3 :: "int \<Rightarrow> string option \<Rightarrow> store \<Rightarrow> response \<times> store" where
  "delete_tipos_sqlite3 i failure s =
     send_deleted (''Tipo n'' @ [CHR 0xE3] @ ''o encontrado.'') ''Tipo deletado com sucesso''
       (db_execute failure (DELETE_tipos_compensacao i) s)"

definition delete_modalidades_sqlite3 :: "int \<Rightarrow> string option \<Rightarrow> store \<Rightarrow> response \<times> store" where
  "delete_modalidades_sqlite3 i failure s =
     send_deleted (''Modalidade n'' @ [CHR 0xE3] @ ''o encontrada.'')
       ''Modalidade deletada com sucesso'' (db_execute failure (DELETE_modalidades i) s)"

section \<open>The WFS proxy routes\<close>

definition WFS_BASE_URL :: string where
  "WFS_BASE_URL = ''http://geoserver.meioambiente.mg.gov.br/ows''"

text \<open>A query value inside a template literal: an array is joined with commas.\<close>

fun join_comma :: "string list \<Rightarrow> string" where
  "join_comma [] = []"
| "join_comma [v] = v"
| "join_comma (v # w # vs) = v @ '','' @ join_comma (w # vs)"

fun template :: "query_value option \<Rightarrow> string" where
  "template None = ''undefined''"
| "template (Some (QStr v)) = v"
| "template (Some (QArr vs)) = join_comma vs"

text \<open>
  Both routes build the upstream URL with the same text, which differs in \<open>TYPENAME\<close>
  only: the fixed query, then \<open>bbox\<close> and \<open>cql_filter\<close>, each appended when truthy.
\<close>

definition wfs_url :: "string \<Rightarrow> query_value option \<Rightarrow> query_value option \<Rightarrow> string" where
  "wfs_url TYPENAME bbox cql_filter =
     (let wfsUrl0 = WFS_BASE_URL @ ''?service=WFS&version=2.0.0&request=GetFeature&typename=''
                      @ TYPENAME @ ''&outputFormat=application/json'';
          wfsUrl1 = (if truthy bbox then wfsUrl0 @ ''&bbox='' @ template bbox else wfsUrl0);
          wfsUrl2 = (if truthy cql_filter then wfsUrl1 @ ''&cql_filter='' @ template cql_filter
                     else wfsUrl1)
      in wfsUrl2)"

text \<open>
  The upstream service is a function from the URL to the message of the failure (no
  connection, a status outside 2xx, a timeout) or to the body of its answer, which is a
  JSON document or some other text, such as an XML exception report.

  \<open>axios.get\<close> rejects with the failure, or resolves with \<open>response.data\<close>: the value of
  the body when the body parses as JSON, and the body as a string otherwise.

  A route returns the URL it requested and its response; \<open>res.json(response.data)\<close>
  serialises the value with the default status 200.
\<close>

datatype upstream_body = JSON_document json | Other_text string

definition axios_get :: "(string \<Rightarrow> string + upstream_body) \<Rightarrow> string \<Rightarrow> string + json" where
  "axios_get upstream url =
     (case upstream url of
        Inl message \<Rightarrow> Inl message
      | Inr (JSON_document v) \<Rightarrow> Inr v
      | Inr (Other_text t) \<Rightarrow> Inr (JString t))"

definition get_sisema_unidades_conservacao ::
  "(string \<Rightarrow> string + upstream_body) \<Rightarrow> query_value option \<Rightarrow> query_value option \<Rightarrow> string \<times> response" where
  "get_sisema_unidades_conservacao upstream bbox cql_filter =
     (let wfsUrl = wfs_url ''ide_2010_mg_unidades_conservacao_estaduais_pol'' bbox cql_filter in
      (wfsUrl,
       case axios_get upstream wfsUrl of
         Inr data \<Rightarrow> \<lparr>status = 200, body = Json data\<rparr>
       | Inl message \<Rightarrow>
           \<lparr>status = 500, body = Error ''Falha ao obter dados de UCs do SISEMA.''\<rparr>))"

definition get_sisema_imoveis_compensacao ::
  "(string \<Rightarrow> string + upstream_body) \<Rightarrow> query_value option \<Rightarrow> query_value option \<Rightarrow> string \<times> response" where
  "get_sisema_imoveis_compensacao upstream bbox cql_filter =
     (let wfsUrl = wfs_url ''ide_2104_mg_imoveis_disponiveis_compensacao_ambiental_pto''
                     bbox cql_filter in
      (wfsUrl,
       case axios_get upstream wfsUrl of
         Inr data \<Rightarrow> \<lparr>status = 200, body = Json data\<rparr>
       | Inl message \<Rightarrow>
           \<lparr>status = 500,
            body = Error (''Falha ao obter dados de Im'' @ [CHR 0xF3] @ ''veis do SISEMA.'')\<rparr>))"

section \<open>The frontend controller\<close>

text \<open>
  The page: the three arrays filled at load time and the elements the callbacks write.
  The elements are taken to exist in the document. A list item keeps the text, the
  \<open>data-id\<close> and the \<open>active\<close> class of an \<open>li\<close>.
\<close>

datatype display = DisplayNone | DisplayBlock

record list_item =
  li_textContent :: string
  li_id :: int
  li_active :: bool

datatype list_content = Items "list_item list" | Html string

record page =
  loaded_tipos :: "tipo list"
  loaded_modalidades :: "modalidade list"
  loaded_normas :: "norma list"
  modalidadesList :: list_content
  detalhesDiv_innerHTML :: string
  detalhesDiv_display :: display
  normasDiv_display :: display
  normasListUl :: "(sql_text \<times> sql_text) list"
  siscalBtnContainer_innerHTML :: string
  siscalBtnContainer_display :: display

text \<open>
  \<open>==\<close> between a number or null on the left and the value of the select element on the
  right, which is the empty string of the placeholder (\<open>None\<close>) or the digits of a type id:
  null equals neither, and the empty string converts to 0.
\<close>

fun loose_eq :: "int option \<Rightarrow> int option \<Rightarrow> bool" where
  "loose_eq None v = False"
| "loose_eq (Some k) None = (k = 0)"
| "loose_eq (Some k) (Some j) = (k = j)"

text \<open>Text content and template literals print null as nothing and as \<open>null\<close>.\<close>

definition text_of :: "sql_text \<Rightarrow> string" where
  "text_of v = (case v of None \<Rightarrow> [] | Some t \<Rightarrow> t)"

definition interpolate :: "sql_text \<Rightarrow> string" where
  "interpolate v = (case v of None \<Rightarrow> ''null'' | Some t \<Rightarrow> t)"

text \<open>
  \<open>displayModalidades\<close>. \<open>fetched\<close> is what the request for the norms of the type
  brought: \<open>None\<close> when \<open>fetchData\<close> failed, in which case it has written its error line
  into the list and returned the empty array.
\<close>

definition displayModalidades :: "int option \<Rightarrow> norma list option \<Rightarrow> page \<Rightarrow> page" where
  "displayModalidades tipoId fetched pg =
     (let pg1 = pg\<lparr>detalhesDiv_display := DisplayNone, modalidadesList := Items [],
                   siscalBtnContainer_display := DisplayNone,
                   siscalBtnContainer_innerHTML := []\<rparr>;
          filteredModalidades = filter (\<lambda>m. loose_eq (m_tipo_id m) tipoId) (loaded_modalidades pg);
          pg2 = (if filteredModalidades = [] then
                   (if tipoId \<noteq> None then
                      pg1\<lparr>modalidadesList :=
                            Html ''<li>Nenhuma modalidade encontrada para este tipo.</li>''\<rparr>
                    else pg1)
                 else pg1\<lparr>modalidadesList :=
                            Items (map (\<lambda>modalidade.
                                     \<lparr>li_textContent = text_of (m_nome modalidade),
                                      li_id = m_id modalidade, li_active = False\<rparr>)
                                   filteredModalidades)\<rparr>)
      in if tipoId = None then pg2\<lparr>normasDiv_display := DisplayNone\<rparr>
         else (case find (\<lambda>t. loose_eq (Some (t_id t)) tipoId) (loaded_tipos pg) of
                 None \<Rightarrow> pg2
               | Some tipo \<Rightarrow>
                   (let pg3 = (case fetched of
                                 None \<Rightarrow> pg2\<lparr>modalidadesList :=
                                   Html ''<li>Erro ao carregar dados. Verifique o console.</li>''\<rparr>
                               | Some ns \<Rightarrow> pg2);
                        normasRelacionadas = (case fetched of None \<Rightarrow> [] | Some ns \<Rightarrow> ns);
                        pg4 = pg3\<lparr>normasListUl := []\<rparr>
                    in if normasRelacionadas \<noteq> [] then
                         pg4\<lparr>normasListUl := map (\<lambda>norma. (n_link norma, n_nome norma))
                                                 normasRelacionadas,
                             normasDiv_display := DisplayBlock\<rparr>
                       else pg4\<lparr>normasDiv_display := DisplayNone\<rparr>)))"

text \<open>
  The first two statements of \<open>displayDetalhes\<close>: the modality is looked up, and its
  \<open>tipo_id\<close> is read to look up the type. Reading a property of \<open>undefined\<close> throws.
\<close>

definition lookup_detalhes :: "int \<Rightarrow> page \<Rightarrow> js_error + (modalidade option \<times> tipo option)" where
  "lookup_detalhes modalidadeId pg =
     (let modalidade = find (\<lambda>m. m_id m = modalidadeId) (loaded_modalidades pg) in
      case modalidade of
        None \<Rightarrow> Inl (TypeError ''Cannot read properties of undefined'')
      | Some m \<Rightarrow>
          Inr (modalidade, find (\<lambda>t. Some (t_id t) = m_tipo_id m) (loaded_tipos pg)))"

text \<open>The labelled fields of the detail panel, in the order of the object \<open>campos\<close>.\<close>

definition campos :: "modalidade \<Rightarrow> (string \<times> sql_text) list" where
  "campos modalidade =
     [(''Propor'' @ [CHR 0xE7, CHR 0xE3] @ ''o'', m_proporcao modalidade),
      (''Forma'', m_forma modalidade),
      (''Especificidades da '' @ [CHR 0xC1] @ ''rea'', m_especificidades modalidade),
      (''Vantagens'', m_vantagens modalidade),
      (''Desvantagens'', m_desvantagens modalidade),
      (''Documentos Necess'' @ [CHR 0xE1] @ ''rios'', m_documentos modalidade),
      (''Observa'' @ [CHR 0xE7, CHR 0xF5] @ ''es'', m_observacao modalidade)]"

definition replace_newlines :: "string \<Rightarrow> string" where
  "replace_newlines v = concat (map (\<lambda>c. if c = CHR 0x0A then ''<br>'' else [c]) v)"

definition campo_html :: "string \<times> sql_text \<Rightarrow> string" where
  "campo_html kv =
     (case kv of
        (chave, None) \<Rightarrow> []
      | (chave, Some valor) \<Rightarrow>
          (if trim valor \<noteq> [] then
             ''<strong>'' @ chave @ '':</strong><p>'' @ replace_newlines valor @ ''</p>''
           else []))"

definition siscal_button :: string where
  "siscal_button =
     [CHR 0x0A] @ ''        <a href=\"https://siscal.netlify.app/\" target=\"_blank\" class=\"siscal-btn\" style=\"display:inline-block;padding:10px 20px;background:#1976d2;color:#fff;border:none;border-radius:4px;text-decoration:none;font-weight:bold;\">C''
     @ [CHR 0xE1] @ ''lculo de Compensa'' @ [CHR 0xE7, CHR 0xE3] @ ''o</a>'' @ [CHR 0x0A] @ ''      ''"

text \<open>
  \<open>displayDetalhes\<close> returns the error it threw, if any, with the page as it left it.
  \<open>trim\<close> on a name that is null throws; the name of the modality is only read when
  the name of the type has passed the test.
\<close>

definition displayDetalhes :: "int \<Rightarrow> page \<Rightarrow> js_error option \<times> page" where
  "displayDetalhes modalidadeId pg =
     (case lookup_detalhes modalidadeId pg of
        Inl e \<Rightarrow> (Some e, pg)
      | Inr (Some modalidade, Some tipo) \<Rightarrow>
          (let detalhesHtml = ''<h3>'' @ interpolate (m_nome modalidade) @ ''</h3>''
                                @ concat (map campo_html (campos modalidade));
               pg1 = pg\<lparr>detalhesDiv_innerHTML := detalhesHtml,
                         detalhesDiv_display := DisplayBlock,
                         siscalBtnContainer_display := DisplayNone,
                         siscalBtnContainer_innerHTML := []\<rparr>
           in case t_nome tipo of
                None \<Rightarrow> (Some (TypeError ''Cannot read properties of null''), pg1)
              | Some tipo_nome \<Rightarrow>
                  (if toUpperCase (trim tipo_nome) = ''SNUC'' then
                     (case m_nome modalidade of
                        None \<Rightarrow> (Some (TypeError ''Cannot read properties of null''), pg1)
                      | Some modalidade_nome \<Rightarrow>
                          (if toUpperCase (trim modalidade_nome) = ''PAGAMENTO'' then
                             (None, pg1\<lparr>siscalBtnContainer_innerHTML := siscal_button,
                                        siscalBtnContainer_display := DisplayBlock\<rparr>)
                           else (None, pg1)))
                   else (None, pg1)))
      | Inr _ \<Rightarrow> (None, pg))"

text \<open>
  The click listener of the \<open>k\<close>-th rendered item: every item loses the \<open>active\<close> class,
  the clicked one gets it, and the details of its modality are displayed.
\<close>

definition click_item :: "nat \<Rightarrow> page \<Rightarrow> js_error option \<times> page" where
  "click_item k pg =
     (case modalidadesList pg of
        Html h \<Rightarrow> (None, pg)
      | Items lis \<Rightarrow>
          (if k < length lis then
             (let cleared = map (\<lambda>item. item\<lparr>li_active := False\<rparr>) lis;
                  marked = cleared[k := (cleared ! k)\<lparr>li_active := True\<rparr>]
              in displayDetalhes (li_id (lis ! k)) (pg\<lparr>modalidadesList := Items marked\<rparr>))
           else (None, pg)))"

text \<open>
  Reading of the words "case-insensitively equals": the two strings are equal once
  folded to lower case.
\<close>

definition ci_equal :: "string \<Rightarrow> string \<Rightarrow> bool" where
  "ci_equal a b = (map lower_char a = map lower_char b)"

text \<open>
  A store with no rows, a store with two norms, two types and a modality, a store whose
  only norm has NULL in its three text columns, and a store with one norm named in
  small letters and one named with the same letters in capitals, two of them accented.
\<close>

definition empty_store :: store where
  "empty_store = \<lparr>normas = [], tipos_compensacao = [], modalidades = [],
                   normas_tipos_compensacao = []\<rparr>"

definition sample_store :: store where
  "sample_store =
     \<lparr>normas = [\<lparr>n_id = 1, n_nome = Some ''Lei 9985'', n_link = Some ''http://a'',
                  n_preambulo = Some ''Institui o SNUC''\<rparr>,
                 \<lparr>n_id = 2, n_nome = Some ''Decreto 47749'', n_link = None,
                  n_preambulo = Some ''Supressao de vegetacao''\<rparr>],
      tipos_compensacao = [\<lparr>t_id = 1, t_nome = Some ''SNUC''\<rparr>,
                          \<lparr>t_id = 2, t_nome = Some ''Mata Atlantica''\<rparr>],
      modalidades = [\<lparr>m_id = 1, m_tipo_id = Some 1, m_nome = Some ''PAGAMENTO'',
                      m_proporcao = None, m_forma = None, m_especificidades = None,
                      m_vantagens = None, m_desvantagens = None, m_observacao = None,
                      m_documentos = None\<rparr>],
      normas_tipos_compensacao = [\<lparr>nt_tipo_id = Some 1, nt_norma_id = Some 1\<rparr>,
                                 \<lparr>nt_tipo_id = Some 2, nt_norma_id = Some 2\<rparr>]\<rparr>"

definition null_store :: store where
  "null_store =
     \<lparr>normas = [\<lparr>n_id = 1, n_nome = None, n_link = None, n_preambulo = None\<rparr>],
      tipos_compensacao = [], modalidades = [], normas_tipos_compensacao = []\<rparr>"

definition accent_store :: store where
  "accent_store =
     \<lparr>normas = [\<lparr>n_id = 1, n_nome = Some [CHR ''a'', CHR 0xE7, CHR 0xE3, CHR ''o''],
                  n_link = None, n_preambulo = None\<rparr>,
                 \<lparr>n_id = 2, n_nome = Some [CHR ''A'', CHR 0xC7, CHR 0xC3, CHR ''O''],
                  n_link = None, n_preambulo = None\<rparr>],
      tipos_compensacao = [], modalidades = [], normas_tipos_compensacao = []\<rparr>"

text \<open>
  Reading of the words "appended verbatim exactly when present": nothing for an absent
  parameter, and \<open>&name=value\<close> with the value as it came for a present one.
\<close>

definition present_appended :: "string \<Rightarrow> string option \<Rightarrow> string" where
  "present_appended name v = (case v of None \<Rightarrow> [] | Some t \<Rightarrow> ''&'' @ name @ ''='' @ t)"

text \<open>
  What the routes append for a parameter: nothing when it is absent or the empty string,
  \<open>&name=value\<close> with the value as it came when it is given once and is not empty, and
  \<open>&name=\<close> with the values joined by commas when it is given several times.
\<close>

fun truthy_appended :: "string \<Rightarrow> query_value option \<Rightarrow> string" where
  "truthy_appended name None = []"
| "truthy_appended name (Some (QStr t)) = (if t = [] then [] else ''&'' @ name @ ''='' @ t)"
| "truthy_appended name (Some (QArr ts)) = ''&'' @ name @ ''='' @ join_comma ts"

text \<open>
  A page after loading: two types, the first named \<open>snuc\<close> in lower case between two
  spaces, and three modalities.
\<close>

definition sample_page :: page where
  "sample_page =
     \<lparr>loaded_tipos = [\<lparr>t_id = 1, t_nome = Some '' snuc ''\<rparr>,
                      \<lparr>t_id = 2, t_nome = Some ''Reserva Legal''\<rparr>],
      loaded_modalidades =
        [\<lparr>m_id = 1, m_tipo_id = Some 1, m_nome = Some ''Pagamento'', m_proporcao = Some ''1:1'',
          m_forma = None, m_especificidades = None, m_vantagens = None, m_desvantagens = None,
          m_observacao = None, m_documentos = None\<rparr>,
         \<lparr>m_id = 2, m_tipo_id = Some 1, m_nome = Some ''Doacao'', m_proporcao = None,
          m_forma = None, m_especificidades = None, m_vantagens = None, m_desvantagens = None,
          m_observacao = None, m_documentos = None\<rparr>,
         \<lparr>m_id = 3, m_tipo_id = Some 2, m_nome = Some ''PAGAMENTO'', m_proporcao = None,
          m_forma = None, m_especificidades = None, m_vantagens = None, m_desvantagens = None,
          m_observacao = None, m_documentos = None\<rparr>],
      loaded_normas = [],
      modalidadesList = Items [],
      detalhesDiv_innerHTML = [],
      detalhesDiv_display = DisplayNone,
      normasDiv_display = DisplayNone,
      normasListUl = [],
      siscalBtnContainer_innerHTML = [],
      siscalBtnContainer_display = DisplayNone\<rparr>"

section \<open>Properties of the REST API layer\<close>

subsection \<open>Store failures\<close>

lemma get_normas_array_throws:
  "get_normas (Some (QArr vs)) failure s =
     (Inl (TypeError ''searchTerm.toLowerCase is not a function''), s)"
  by (simp add: get_normas_def)

lemma get_normas_failure:
  "(\<forall>vs. q \<noteq> Some (QArr vs)) \<Longrightarrow>
   get_normas q (Some m) s = (Inr \<lparr>status = 400, body = Error m\<rparr>, s)"
proof (cases q)
  case None
  then show ?thesis by (simp add: get_normas_def db_execute_def send_rows_def)
next
  case (Some v)
  assume "\<forall>vs. q \<noteq> Some (QArr vs)"
  with Some show ?thesis
    by (cases v) (simp_all add: get_normas_def db_execute_def send_rows_def)
qed

text \<open>
  C3. On every store-backed route, when the store operation fails with message \<open>m\<close> the
  response is status 400 with body \<open>{error: m}\<close>, the raw message, and the tables are
  as before. The one request that performs no store operation is the norm listing with
  a repeated \<open>q\<close> parameter, whose handler throws before it reaches the store. The delete
  routes of the sqlite3 variant answer a failure the same way.
\<close>

theorem store_failure_is_400:
  assumes "\<forall>vs. req \<noteq> GET_normas (Some (QArr vs))"
  shows "handle req (Some m) s = (Inr \<lparr>status = 400, body = Error m\<rparr>, s)
         \<and> delete_normas_sqlite3 i (Some m) s = (\<lparr>status = 400, body = Error m\<rparr>, s)
         \<and> delete_tipos_sqlite3 i (Some m) s = (\<lparr>status = 400, body = Error m\<rparr>, s)
         \<and> delete_modalidades_sqlite3 i (Some m) s = (\<lparr>status = 400, body = Error m\<rparr>, s)"
proof -
  have "handle req (Some m) s = (Inr \<lparr>status = 400, body = Error m\<rparr>, s)"
  proof (cases req)
    case (GET_normas q)
    with assms have "\<forall>vs. q \<noteq> Some (QArr vs)" by simp
    with GET_normas show ?thesis by (simp add: get_normas_failure)
  qed (simp_all add: get_tipos_def get_modalidades_def get_tipos_normas_def post_normas_def
      put_normas_def delete_normas_def post_tipos_def put_tipos_def delete_tipos_def
      post_normas_tipos_compensacao_def post_modalidades_def put_modalidades_def
      delete_modalidades_def db_execute_def send_rows_def send_message_def)
  then show ?thesis
    by (simp add: delete_normas_sqlite3_def delete_tipos_sqlite3_def
        delete_modalidades_sqlite3_def db_execute_def send_deleted_def)
qed

theorem store_failure_is_400_witness:
  "handle (POST_modalidades \<lparr>p_tipo_id = Some 7, p_nome = Some ''PAGAMENTO'', p_proporcao = None,
       p_forma = None, p_especificidades = None, p_vantagens = None, p_desvantagens = None,
       p_observacao = None, p_documentos = None\<rparr>)
     (Some ''FOREIGN KEY constraint failed'') empty_store
   = (Inr \<lparr>status = 400, body = Error ''FOREIGN KEY constraint failed''\<rparr>, empty_store)"
  using store_failure_is_400 [of "POST_modalidades \<lparr>p_tipo_id = Some 7,
       p_nome = Some ''PAGAMENTO'', p_proporcao = None,
       p_forma = None, p_especificidades = None, p_vantagens = None, p_desvantagens = None,
       p_observacao = None, p_documentos = None\<rparr>" "''FOREIGN KEY constraint failed''" empty_store]
  by simp

subsection \<open>Deleting a row that does not exist\<close>

text \<open>
  C1. Deleting type 1 from a store with no rows: the server answers 200 with the success
  message, and so do its routes for norms and modalities, where the delete route of the
  sqlite3 variant answers 404.
\<close>

theorem delete_missing_row_answers_200:
  "delete_tipos 1 None empty_store
     = (\<lparr>status = 200, body = Message ''Tipo deletado com sucesso''\<rparr>, empty_store)
   \<and> delete_normas 1 None empty_store
     = (\<lparr>status = 200, body = Message ''Norma deletada com sucesso''\<rparr>, empty_store)
   \<and> delete_modalidades 1 None empty_store
     = (\<lparr>status = 200, body = Message ''Modalidade deletada com sucesso''\<rparr>, empty_store)
   \<and> delete_tipos_sqlite3 1 None empty_store
     = (\<lparr>status = 404, body = Message (''Tipo n'' @ [CHR 0xE3] @ ''o encontrado.'')\<rparr>,
        empty_store)"
  by (simp add: delete_tipos_def delete_normas_def delete_modalidades_def
      delete_tipos_sqlite3_def db_execute_def send_message_def send_deleted_def empty_store_def)

subsection \<open>Updates\<close>

text \<open>
  An \<open>UPDATE ... WHERE id = ?\<close> maps the rows of a table: generic facts about such a map,
  for any key and any change that keeps the key.
\<close>
lemma update_keeps_keys:
  assumes "\<And>x. key (f x) = key x"
  shows "map key (map (\<lambda>x. if key x = i then f x else x) xs) = map key xs"
  by (induction xs) (simp_all add: assms)

lemma update_hits:
  assumes "\<And>x. key (f x) = key x"
    and "n \<in> set (map (\<lambda>x. if key x = i then f x else x) xs)" and "key n = i"
  shows "\<exists>x\<in>set xs. n = f x"
proof -
  from assms(2) obtain x where x: "x \<in> set xs" and n: "n = (if key x = i then f x else x)"
    by (auto simp only: set_map image_iff)
  have "key x = i"
  proof (rule ccontr)
    assume "key x \<noteq> i"
    with n have "n = x" by simp
    with \<open>key x \<noteq> i\<close> assms(3) show False by simp
  qed
  with n have "n = f x" by simp
  with x show ?thesis by blast
qed

lemma update_misses:
  assumes "i \<notin> key ` set xs"
  shows "map (\<lambda>x. if key x = i then f x else x) xs = xs"
proof (rule map_idI)
  fix x assume "x \<in> set xs"
  with assms have "key x \<noteq> i" by blast
  then show "(if key x = i then f x else x) = x" by simp
qed

lemma put_normas_ok:
  "\<exists>s'. put_normas i nome link preambulo None s
           = (\<lparr>status = 200, body = Message ''Norma atualizada com sucesso''\<rparr>, s')
        \<and> map n_id (normas s') = map n_id (normas s)
        \<and> (\<forall>n\<in>set (normas s'). n_id n = i \<longrightarrow>
              n_nome n = nome \<and> n_link n = link \<and> n_preambulo n = preambulo)
        \<and> (i \<notin> n_id ` set (normas s) \<longrightarrow> s' = s)"
proof -
  let ?f = "\<lambda>n. n\<lparr>n_nome := nome, n_link := link, n_preambulo := preambulo\<rparr>"
  let ?s' = "s\<lparr>normas := map (\<lambda>n. if n_id n = i then ?f n else n) (normas s)\<rparr>"
  have h: "put_normas i nome link preambulo None s
           = (\<lparr>status = 200, body = Message ''Norma atualizada com sucesso''\<rparr>, ?s')"
    by (simp add: put_normas_def db_execute_def send_message_def)
  have 1: "map n_id (normas ?s') = map n_id (normas s)"
    using update_keeps_keys[of n_id ?f i "normas s"] by simp
  have 2: "\<forall>n\<in>set (normas ?s'). n_id n = i \<longrightarrow>
              n_nome n = nome \<and> n_link n = link \<and> n_preambulo n = preambulo"
  proof (intro ballI impI)
    fix n assume "n \<in> set (normas ?s')" and i: "n_id n = i"
    then have "n \<in> set (map (\<lambda>n. if n_id n = i then ?f n else n) (normas s))" by simp
    from update_hits[of n_id ?f n i "normas s", OF _ this i]
    obtain x where "n = ?f x" by auto
    then show "n_nome n = nome \<and> n_link n = link \<and> n_preambulo n = preambulo" by simp
  qed
  have 3: "i \<notin> n_id ` set (normas s) \<longrightarrow> ?s' = s"
    by (simp add: update_misses)
  from h 1 2 3 show ?thesis by (intro exI[of _ ?s'] conjI)
qed

lemma put_tipos_ok:
  "\<exists>s'. put_tipos i nome None s
           = (\<lparr>status = 200, body = Message ''Tipo atualizado com sucesso''\<rparr>, s')
        \<and> map t_id (tipos_compensacao s') = map t_id (tipos_compensacao s)
        \<and> (\<forall>t\<in>set (tipos_compensacao s'). t_id t = i \<longrightarrow> t_nome t = nome)
        \<and> (i \<notin> t_id ` set (tipos_compensacao s) \<longrightarrow> s' = s)"
proof -
  let ?f = "\<lambda>t. t\<lparr>t_nome := nome\<rparr>"
  let ?s' = "s\<lparr>tipos_compensacao := map (\<lambda>t. if t_id t = i then ?f t else t) (tipos_compensacao s)\<rparr>"
  have h: "put_tipos i nome None s
           = (\<lparr>status = 200, body = Message ''Tipo atualizado com sucesso''\<rparr>, ?s')"
    by (simp add: put_tipos_def db_execute_def send_message_def)
  have 1: "map t_id (tipos_compensacao ?s') = map t_id (tipos_compensacao s)"
    using update_keeps_keys[of t_id ?f i "tipos_compensacao s"] by simp
  have 2: "\<forall>t\<in>set (tipos_compensacao ?s'). t_id t = i \<longrightarrow> t_nome t = nome"
  proof (intro ballI impI)
    fix t assume "t \<in> set (tipos_compensacao ?s')" and i: "t_id t = i"
    then have "t \<in> set (map (\<lambda>t. if t_id t = i then ?f t else t) (tipos_compensacao s))" by simp
    from update_hits[of t_id ?f t i "tipos_compensacao s", OF _ this i]
    obtain x where "t = ?f x" by auto
    then show "t_nome t = nome" by simp
  qed
  have 3: "i \<notin> t_id ` set (tipos_compensacao s) \<longrightarrow> ?s' = s"
    by (simp add: update_misses)
  from h 1 2 3 show ?thesis by (intro exI[of _ ?s'] conjI)
qed

lemma put_modalidades_ok:
  "\<exists>s'. put_modalidades i p None s
           = (\<lparr>status = 200, body = Message ''Modalidade atualizada com sucesso''\<rparr>, s')
        \<and> map m_id (modalidades s') = map m_id (modalidades s)
        \<and> (\<forall>m\<in>set (modalidades s'). m_id m = i \<longrightarrow>
              m_tipo_id m = p_tipo_id p \<and> m_nome m = p_nome p \<and> m_proporcao m = p_proporcao p
              \<and> m_forma m = p_forma p \<and> m_especificidades m = p_especificidades p
              \<and> m_vantagens m = p_vantagens p \<and> m_desvantagens m = p_desvantagens p
              \<and> m_observacao m = p_observacao p \<and> m_documentos m = p_documentos p)
        \<and> (i \<notin> m_id ` set (modalidades s) \<longrightarrow> s' = s)"
proof -
  let ?s' = "s\<lparr>modalidades := map (\<lambda>m. if m_id m = i then set_modalidade p m else m) (modalidades s)\<rparr>"
  have h: "put_modalidades i p None s
           = (\<lparr>status = 200, body = Message ''Modalidade atualizada com sucesso''\<rparr>, ?s')"
    by (simp add: put_modalidades_def db_execute_def send_message_def)
  have k: "\<And>x. m_id (set_modalidade p x) = m_id x" by (simp add: set_modalidade_def)
  have 1: "map m_id (modalidades ?s') = map m_id (modalidades s)"
    using update_keeps_keys[of m_id "set_modalidade p" i "modalidades s", OF k] by simp
  have 2: "\<forall>m\<in>set (modalidades ?s'). m_id m = i \<longrightarrow>
              m_tipo_id m = p_tipo_id p \<and> m_nome m = p_nome p \<and> m_proporcao m = p_proporcao p
              \<and> m_forma m = p_forma p \<and> m_especificidades m = p_especificidades p
              \<and> m_vantagens m = p_vantagens p \<and> m_desvantagens m = p_desvantagens p
              \<and> m_observacao m = p_observacao p \<and> m_documentos m = p_documentos p"
  proof (intro ballI impI)
    fix m assume "m \<in> set (modalidades ?s')" and i: "m_id m = i"
    then have "m \<in> set (map (\<lambda>m. if m_id m = i then set_modalidade p m else m) (modalidades s))"
      by simp
    from update_hits[of m_id "set_modalidade p" m i "modalidades s", OF k this i]
    obtain x where "m = set_modalidade p x" by auto
    then show "m_tipo_id m = p_tipo_id p \<and> m_nome m = p_nome p \<and> m_proporcao m = p_proporcao p
              \<and> m_forma m = p_forma p \<and> m_especificidades m = p_especificidades p
              \<and> m_vantagens m = p_vantagens p \<and> m_desvantagens m = p_desvantagens p
              \<and> m_observacao m = p_observacao p \<and> m_documentos m = p_documentos p"
      by (simp add: set_modalidade_def)
  qed
  have 3: "i \<notin> m_id ` set (modalidades s) \<longrightarrow> ?s' = s"
    by (simp add: update_misses)
  from h 1 2 3 show ?thesis by (intro exI[of _ ?s'] conjI)
qed

text \<open>
  C5. A PUT on a norm, a type or a modality whose store operation does not fail is
  answered 200 with the success message, whether or not a row has the id: the rows and
  their ids stay, every row with the id carries exactly the values of the body in all
  its editable fields, and when no row has the id nothing changes.
\<close>
theorem put_answers_200_and_replaces:
  "(\<exists>s'. handle (PUT_normas i nome link preambulo) None s
           = (Inr \<lparr>status = 200, body = Message ''Norma atualizada com sucesso''\<rparr>, s')
        \<and> map n_id (normas s') = map n_id (normas s)
        \<and> (\<forall>n\<in>set (normas s'). n_id n = i \<longrightarrow>
              n_nome n = nome \<and> n_link n = link \<and> n_preambulo n = preambulo)
        \<and> (i \<notin> n_id ` set (normas s) \<longrightarrow> s' = s))
   \<and> (\<exists>s'. handle (PUT_tipos i nome) None s
           = (Inr \<lparr>status = 200, body = Message ''Tipo atualizado com sucesso''\<rparr>, s')
        \<and> map t_id (tipos_compensacao s') = map t_id (tipos_compensacao s)
        \<and> (\<forall>t\<in>set (tipos_compensacao s'). t_id t = i \<longrightarrow> t_nome t = nome)
        \<and> (i \<notin> t_id ` set (tipos_compensacao s) \<longrightarrow> s' = s))
   \<and> (\<exists>s'. handle (PUT_modalidades i p) None s
           = (Inr \<lparr>status = 200, body = Message ''Modalidade atualizada com sucesso''\<rparr>, s')
        \<and> map m_id (modalidades s') = map m_id (modalidades s)
        \<and> (\<forall>m\<in>set (modalidades s'). m_id m = i \<longrightarrow>
              m_tipo_id m = p_tipo_id p \<and> m_nome m = p_nome p \<and> m_proporcao m = p_proporcao p
              \<and> m_forma m = p_forma p \<and> m_especificidades m = p_especificidades p
              \<and> m_vantagens m = p_vantagens p \<and> m_desvantagens m = p_desvantagens p
              \<and> m_observacao m = p_observacao p \<and> m_documentos m = p_documentos p)
        \<and> (i \<notin> m_id ` set (modalidades s) \<longrightarrow> s' = s))"
proof -
  have h: "\<And>r s'. (handle (PUT_normas i nome link preambulo) None s = (Inr r, s'))
                = (put_normas i nome link preambulo None s = (r, s'))"
       "\<And>r s'. (handle (PUT_tipos i nome) None s = (Inr r, s')) = (put_tipos i nome None s = (r, s'))"
       "\<And>r s'. (handle (PUT_modalidades i p) None s = (Inr r, s'))
                = (put_modalidades i p None s = (r, s'))"
    by (cases "put_normas i nome link preambulo None s", simp)
       (cases "put_tipos i nome None s", simp, cases "put_modalidades i p None s", simp)
  show ?thesis
    unfolding h
    using put_normas_ok[of i nome link preambulo s] put_tipos_ok[of i nome s]
      put_modalidades_ok[of i p s]
    by (intro conjI)
qed

theorem put_answers_200_and_replaces_witness:
  "handle (PUT_tipos 9 (Some ''Reserva Legal'')) None sample_store
     = (Inr \<lparr>status = 200, body = Message ''Tipo atualizado com sucesso''\<rparr>, sample_store)
   \<and> 9 \<notin> t_id ` set (tipos_compensacao sample_store)"
proof -
  have a: "9 \<notin> t_id ` set (tipos_compensacao sample_store)"
    by (simp add: sample_store_def)
  from put_answers_200_and_replaces[of 9 "Some ''Reserva Legal''" None None sample_store
      "\<lparr>p_tipo_id = None, p_nome = None, p_proporcao = None, p_forma = None,
        p_especificidades = None, p_vantagens = None, p_desvantagens = None,
        p_observacao = None, p_documentos = None\<rparr>"]
  obtain s' where "handle (PUT_tipos 9 (Some ''Reserva Legal'')) None sample_store
           = (Inr \<lparr>status = 200, body = Message ''Tipo atualizado com sucesso''\<rparr>, s')"
     and "9 \<notin> t_id ` set (tipos_compensacao sample_store) \<longrightarrow> s' = sample_store"
    by blast
  with a show ?thesis by simp
qed

text \<open>
  C6. When a norm has the id, a PUT that the store carries out followed by the listing
  returns a row with that id, and every returned row with that id has exactly the three
  values written: nothing of the earlier values is left.
\<close>
theorem put_then_get_normas:
  assumes "i \<in> n_id ` set (normas s)"
  shows "\<exists>s' rs. handle (PUT_normas i nome link preambulo) None s
             = (Inr \<lparr>status = 200, body = Message ''Norma atualizada com sucesso''\<rparr>, s')
           \<and> handle (GET_normas None) None s'
             = (Inr \<lparr>status = 200, body = Data (map Norma rs)\<rparr>, s')
           \<and> (\<exists>r\<in>set rs. n_id r = i)
           \<and> (\<forall>r\<in>set rs. n_id r = i \<longrightarrow>
                 n_nome r = nome \<and> n_link r = link \<and> n_preambulo r = preambulo)"
proof -
  from put_normas_ok[of i nome link preambulo s] obtain s' where
    put: "put_normas i nome link preambulo None s
           = (\<lparr>status = 200, body = Message ''Norma atualizada com sucesso''\<rparr>, s')"
    and ids: "map n_id (normas s') = map n_id (normas s)"
    and fields: "\<forall>n\<in>set (normas s'). n_id n = i \<longrightarrow>
              n_nome n = nome \<and> n_link n = link \<and> n_preambulo n = preambulo"
    by blast
  let ?rs = "sort_key n_nome (normas s')"
  have 1: "handle (PUT_normas i nome link preambulo) None s
             = (Inr \<lparr>status = 200, body = Message ''Norma atualizada com sucesso''\<rparr>, s')"
    by (simp add: put)
  have 2: "handle (GET_normas None) None s'
             = (Inr \<lparr>status = 200, body = Data (map Norma ?rs)\<rparr>, s')"
    by (simp add: get_normas_def db_execute_def send_rows_def)
  have "n_id ` set (normas s') = n_id ` set (normas s)"
    using arg_cong[OF ids, of set] by (simp only: set_map)
  with assms have "i \<in> n_id ` set (normas s')" by simp
  then have 3: "\<exists>r\<in>set ?rs. n_id r = i" by (simp only: set_sort) blast
  have 4: "\<forall>r\<in>set ?rs. n_id r = i \<longrightarrow>
                 n_nome r = nome \<and> n_link r = link \<and> n_preambulo r = preambulo"
    using fields by (simp only: set_sort)
  from 1 2 3 4 show ?thesis by (intro exI[of _ s'] exI[of _ ?rs] conjI)
qed

theorem put_then_get_normas_witness:
  "2 \<in> n_id ` set (normas sample_store)
   \<and> (\<exists>s' rs. handle (PUT_normas 2 (Some ''Decreto 48387'') None None) None sample_store
             = (Inr \<lparr>status = 200, body = Message ''Norma atualizada com sucesso''\<rparr>, s')
           \<and> handle (GET_normas None) None s'
             = (Inr \<lparr>status = 200, body = Data (map Norma rs)\<rparr>, s')
           \<and> (\<exists>r. r \<in> set rs \<and> n_id r = 2 \<and> n_nome r = Some ''Decreto 48387''
                  \<and> n_link r = None \<and> n_preambulo r = None))"
proof -
  have a: "2 \<in> n_id ` set (normas sample_store)" by (simp add: sample_store_def)
  from put_then_get_normas[OF a, of "Some ''Decreto 48387''" None None]
  have "\<exists>s' rs. handle (PUT_normas 2 (Some ''Decreto 48387'') None None) None sample_store
             = (Inr \<lparr>status = 200, body = Message ''Norma atualizada com sucesso''\<rparr>, s')
           \<and> handle (GET_normas None) None s'
             = (Inr \<lparr>status = 200, body = Data (map Norma rs)\<rparr>, s')
           \<and> (\<exists>r. r \<in> set rs \<and> n_id r = 2 \<and> n_nome r = Some ''Decreto 48387''
                  \<and> n_link r = None \<and> n_preambulo r = None)"
    by (elim exE conjE bexE) blast
  with a show ?thesis by (intro conjI)
qed

subsection \<open>The norms of a type\<close>
lemma join_set:
  "set (concat (map (\<lambda>n. map (\<lambda>ntc. n) (filter (P n) ls)) ns))
     = {n \<in> set ns. \<exists>l\<in>set ls. P n l}"
  by (induction ns) auto

lemma join_empty:
  "\<forall>l\<in>set ls. \<forall>n. \<not> P n l \<Longrightarrow> concat (map (\<lambda>n. map (\<lambda>ntc. n) (filter (P n) ls)) ns) = []"
  by (induction ns) (simp_all add: filter_empty_conv)

text \<open>
  C7. The norms of a type: the answer is 200 with norm rows only, the rows returned are
  exactly the norms that a row of \<open>normas_tipos_compensacao\<close> links to the type, and
  when no row links the type the list is empty. A norm linked to other types only is not
  returned, and no row of another table is.
\<close>
theorem tipos_normas_are_the_linked:
  "\<exists>rs. get_tipos_normas i None s = (\<lparr>status = 200, body = Data (map Norma rs)\<rparr>, s)
      \<and> set rs = {n \<in> set (normas s). \<exists>l\<in>set (normas_tipos_compensacao s).
                      nt_norma_id l = Some (n_id n) \<and> nt_tipo_id l = Some i}
      \<and> ((\<forall>l\<in>set (normas_tipos_compensacao s). nt_tipo_id l \<noteq> Some i) \<longrightarrow> rs = [])"
proof -
  let ?P = "\<lambda>n ntc. nt_norma_id ntc = Some (n_id n) \<and> nt_tipo_id ntc = Some i"
  let ?rs = "concat (map (\<lambda>n. map (\<lambda>ntc. n) (filter (?P n) (normas_tipos_compensacao s)))
                (normas s))"
  have 1: "get_tipos_normas i None s = (\<lparr>status = 200, body = Data (map Norma ?rs)\<rparr>, s)"
    by (simp add: get_tipos_normas_def db_execute_def send_rows_def)
  have 2: "set ?rs = {n \<in> set (normas s). \<exists>l\<in>set (normas_tipos_compensacao s).
                      nt_norma_id l = Some (n_id n) \<and> nt_tipo_id l = Some i}"
    by (rule join_set)
  have 3: "(\<forall>l\<in>set (normas_tipos_compensacao s). nt_tipo_id l \<noteq> Some i) \<longrightarrow> ?rs = []"
  proof
    assume "\<forall>l\<in>set (normas_tipos_compensacao s). nt_tipo_id l \<noteq> Some i"
    then have "\<forall>l\<in>set (normas_tipos_compensacao s). \<forall>n. \<not> ?P n l" by blast
    then show "?rs = []" by (rule join_empty)
  qed
  from 1 2 3 show ?thesis by (intro exI[of _ ?rs] conjI)
qed

theorem tipos_normas_are_the_linked_witness:
  "get_tipos_normas 1 None sample_store
     = (\<lparr>status = 200, body = Data [Norma \<lparr>n_id = 1, n_nome = Some ''Lei 9985'',
           n_link = Some ''http://a'', n_preambulo = Some ''Institui o SNUC''\<rparr>]\<rparr>, sample_store)
   \<and> get_tipos_normas 3 None sample_store = (\<lparr>status = 200, body = Data []\<rparr>, sample_store)"
proof -
  from tipos_normas_are_the_linked[of 3 sample_store]
  obtain rs where g: "get_tipos_normas 3 None sample_store
        = (\<lparr>status = 200, body = Data (map Norma rs)\<rparr>, sample_store)"
    and e: "(\<forall>l\<in>set (normas_tipos_compensacao sample_store). nt_tipo_id l \<noteq> Some 3) \<longrightarrow> rs = []"
    by blast
  have "\<forall>l\<in>set (normas_tipos_compensacao sample_store). nt_tipo_id l \<noteq> Some 3"
    by (simp add: sample_store_def)
  with e have "rs = []" by (rule mp)
  with g have 3: "get_tipos_normas 3 None sample_store
        = (\<lparr>status = 200, body = Data []\<rparr>, sample_store)" by simp
  have 1: "get_tipos_normas 1 None sample_store
     = (\<lparr>status = 200, body = Data [Norma \<lparr>n_id = 1, n_nome = Some ''Lei 9985'',
           n_link = Some ''http://a'', n_preambulo = Some ''Institui o SNUC''\<rparr>]\<rparr>, sample_store)"
    by (simp add: get_tipos_normas_def db_execute_def send_rows_def sample_store_def)
  from 1 3 show ?thesis by (intro conjI)
qed

subsection \<open>Searching norms\<close>

text \<open>Case folding and the wildcards of \<open>LIKE\<close>.\<close>

lemma of_char_lower:
  "(of_char (lower_char c) :: nat) =
     (if 65 \<le> (of_char c :: nat) \<and> (of_char c :: nat) \<le> 90 then of_char c + 32 else of_char c)"
  by (simp add: lower_char_def Let_def)

lemma char_eq_nat: "c = d \<longleftrightarrow> (of_char c :: nat) = of_char d"
  by simp

lemma lower_char_percent: "lower_char c = CHR ''%'' \<longleftrightarrow> c = CHR ''%''"
  unfolding char_eq_nat[of _ "CHR ''%''"] of_char_lower by simp

lemma lower_char_underscore: "lower_char c = CHR ''_'' \<longleftrightarrow> c = CHR ''_''"
  unfolding char_eq_nat[of _ "CHR ''_''"] of_char_lower by simp

lemma lower_char_idem: "lower_char (lower_char c) = lower_char c"
  unfolding char_eq_nat[of "lower_char (lower_char c)"] of_char_lower by simp

lemma like_percent_all: "like [CHR ''%''] s"
  by (induction s) auto

lemma like_percent_split:
  "like (CHR ''%'' # r) s \<longleftrightarrow> (\<exists>u t. s = u @ t \<and> like r t)"
proof (induction s)
  case Nil
  then show ?case by simp
next
  case (Cons c s)
  have "(\<exists>u t. c # s = u @ t \<and> like r t) \<longleftrightarrow> like r (c # s) \<or> (\<exists>u t. s = u @ t \<and> like r t)"
    by (auto simp: Cons_eq_append_conv)
  with Cons show ?case by simp
qed

lemma like_literal:
  "\<forall>p\<in>set q. p \<noteq> CHR ''%'' \<and> p \<noteq> CHR ''_'' \<Longrightarrow>
   like (q @ r) s \<longleftrightarrow> (\<exists>w t. s = w @ t \<and> map lower_char w = map lower_char q \<and> like r t)"
proof (induction q arbitrary: s)
  case Nil
  then show ?case by simp
next
  case (Cons p q)
  then have p: "p \<noteq> CHR ''%''" "p \<noteq> CHR ''_''"
    and IH: "\<And>s. like (q @ r) s \<longleftrightarrow> (\<exists>w t. s = w @ t \<and> map lower_char w = map lower_char q \<and> like r t)"
    by simp_all
  show ?case
  proof (cases s)
    case Nil
    with p show ?thesis by simp
  next
    case (Cons c s')
    have "(\<exists>w t. c # s' = w @ t \<and> map lower_char w = map lower_char (p # q) \<and> like r t)
          \<longleftrightarrow> lower_char p = lower_char c \<and> (\<exists>w t. s' = w @ t \<and> map lower_char w = map lower_char q \<and> like r t)"
      (is "?L \<longleftrightarrow> ?R")
    proof
      assume ?L
      then obtain w t where w: "c # s' = w @ t" "map lower_char w = map lower_char (p # q)" "like r t"
        by blast
      from w(2) obtain c' w' where "w = c' # w'" by (cases w) auto
      with w show ?R by auto
    next
      assume ?R
      then obtain w t where "s' = w @ t" "map lower_char w = map lower_char q" "like r t"
        and "lower_char p = lower_char c" by blast
      then have "c # s' = (c # w) @ t \<and> map lower_char (c # w) = map lower_char (p # q) \<and> like r t"
        by simp
      then show ?L by blast
    qed
    with Cons p IH[of s'] show ?thesis by simp
  qed
qed

lemma of_char_latin1_lower:
  "(of_char (latin1_lower_char c) :: nat) =
     (if (65 \<le> (of_char c :: nat) \<and> (of_char c :: nat) \<le> 90)
         \<or> (192 \<le> (of_char c :: nat) \<and> (of_char c :: nat) \<le> 222 \<and> (of_char c :: nat) \<noteq> 215)
      then of_char c + 32 else of_char c)"
  by (auto simp add: latin1_lower_char_def Let_def)

lemma latin1_lower_ascii:
  "(of_char c :: nat) < 128 \<Longrightarrow> latin1_lower_char c = lower_char c"
  unfolding char_eq_nat[of "latin1_lower_char c"] of_char_lower of_char_latin1_lower by simp

lemma latin1_lower_is_ascii:
  "(of_char (latin1_lower_char c) :: nat) < 128 \<longleftrightarrow> (of_char c :: nat) < 128"
  unfolding of_char_latin1_lower by auto

lemma lower_is_ascii:
  "(of_char (lower_char c) :: nat) < 128 \<longleftrightarrow> (of_char c :: nat) < 128"
  unfolding of_char_lower by auto

lemma fold_eq_ascii:
  assumes "(of_char d :: nat) < 128"
  shows "latin1_lower_char c = latin1_lower_char d \<longleftrightarrow> lower_char c = lower_char d"
proof (cases "(of_char c :: nat) < 128")
  case True
  with assms show ?thesis by (simp only: latin1_lower_ascii)
next
  case False
  have "latin1_lower_char c \<noteq> latin1_lower_char d"
  proof
    assume "latin1_lower_char c = latin1_lower_char d"
    then have "((of_char (latin1_lower_char c) :: nat) < 128)
                 = ((of_char (latin1_lower_char d) :: nat) < 128)" by (simp only:)
    with assms False show False unfolding latin1_lower_is_ascii by simp
  qed
  moreover have "lower_char c \<noteq> lower_char d"
  proof
    assume "lower_char c = lower_char d"
    then have "((of_char (lower_char c) :: nat) < 128) = ((of_char (lower_char d) :: nat) < 128)"
      by (simp only:)
    with assms False show False unfolding lower_is_ascii by simp
  qed
  ultimately show ?thesis by simp
qed

lemma map_fold_eq:
  assumes "\<And>c d. d \<in> set q \<Longrightarrow> (F c = F d \<longleftrightarrow> G c = G d)"
  shows "map F w = map F q \<longleftrightarrow> map G w = map G q"
  using assms
proof (induction q arbitrary: w)
  case Nil
  then show ?case by simp
next
  case (Cons d q)
  show ?case
  proof (cases w)
    case Nil
    then show ?thesis by simp
  next
    case (Cons c w')
    have 1: "F c = F d \<longleftrightarrow> G c = G d" by (rule Cons.prems) simp
    have 2: "map F w' = map F q \<longleftrightarrow> map G w' = map G q"
      by (rule Cons.IH) (rule Cons.prems, simp)
    show ?thesis unfolding Cons using 1 2 by simp
  qed
qed

lemma sublist_map_iff:
  "sublist (map f q) (map f s) \<longleftrightarrow> (\<exists>a w b. s = a @ w @ b \<and> map f w = map f q)"
proof
  assume "sublist (map f q) (map f s)"
  then have "\<exists>ps ss. map f s = ps @ (map f q @ ss)" by (simp only: sublist_def)
  then obtain ps ss where e: "map f s = ps @ (map f q @ ss)" by (elim exE)
  from e[unfolded map_eq_append_conv]
  obtain a r where s: "s = a @ r" and r: "map f q @ ss = map f r" by (elim exE conjE)
  from r[unfolded append_eq_map_conv]
  obtain w b where w: "r = w @ b" "map f q = map f w" by (elim exE conjE)
  have "s = a @ w @ b \<and> map f w = map f q" unfolding s w(1) w(2) by simp
  then show "\<exists>a w b. s = a @ w @ b \<and> map f w = map f q" by (intro exI)
next
  assume "\<exists>a w b. s = a @ w @ b \<and> map f w = map f q"
  then obtain a w b where s: "s = a @ w @ b" and w: "map f w = map f q" by (elim exE conjE)
  have "map f s = map f a @ map f q @ map f b" unfolding s map_append w ..
  then show "sublist (map f q) (map f s)" unfolding sublist_def by (intro exI)
qed

lemma contains_ascii_term:
  assumes "\<forall>d\<in>set q. (of_char d :: nat) < 128"
  shows "sublist (map latin1_lower_char q) (map latin1_lower_char t)
           \<longleftrightarrow> sublist (map lower_char q) (map lower_char t)"
proof -
  have "\<And>w. map latin1_lower_char w = map latin1_lower_char q
               \<longleftrightarrow> map lower_char w = map lower_char q"
  proof (rule map_fold_eq)
    fix c d assume "d \<in> set q"
    with assms have "(of_char d :: nat) < 128" by (rule bspec)
    then show "latin1_lower_char c = latin1_lower_char d \<longleftrightarrow> lower_char c = lower_char d"
      by (rule fold_eq_ascii)
  qed
  then show ?thesis unfolding sublist_map_iff by (simp only:)
qed

lemma toLowerCase_ascii:
  assumes "\<forall>d\<in>set q. (of_char d :: nat) < 128"
  shows "toLowerCase q = map lower_char q"
  unfolding toLowerCase_def
proof (rule map_cong[OF refl])
  fix d assume "d \<in> set q"
  with assms have "(of_char d :: nat) < 128" by (rule bspec)
  then show "latin1_lower_char d = lower_char d" by (rule latin1_lower_ascii)
qed

lemma like_term_split: "like (''%'' @ map lower_char q @ ''%'') s
        \<longleftrightarrow> (\<exists>u t'. s = u @ t' \<and> like (map lower_char q @ ''%'') t')"
  using like_percent_split[of "map lower_char q @ ''%''" s]
  by simp

lemma like_lowered_literal:
  assumes "\<forall>p\<in>set q. p \<noteq> CHR ''%'' \<and> p \<noteq> CHR ''_''"
  shows "like (map lower_char q @ ''%'') t' \<longleftrightarrow> (\<exists>w t''. t' = w @ t'' \<and> map lower_char w = map lower_char q)"
proof -
  let ?lq = "map lower_char q"
  have nw: "\<forall>p\<in>set ?lq. p \<noteq> CHR ''%'' \<and> p \<noteq> CHR ''_''"
  proof
    fix p assume "p \<in> set ?lq"
    then obtain c where c: "c \<in> set q" and p: "p = lower_char c" by auto
    from assms c have "c \<noteq> CHR ''%''" "c \<noteq> CHR ''_''" by simp_all
    then show "p \<noteq> CHR ''%'' \<and> p \<noteq> CHR ''_''"
      unfolding p by (simp add: lower_char_percent lower_char_underscore)
  qed
  have idem: "map lower_char ?lq = ?lq"
    by (simp add: lower_char_idem)
  show ?thesis
    unfolding like_literal[OF nw, of "''%''" t'] idem
    by (simp add: like_percent_all)
qed

lemma lowered_infix: "(\<exists>u w t''. map lower_char t = u @ w @ t'' \<and> map lower_char w = map lower_char q)
   \<longleftrightarrow> (\<exists>u t''. map lower_char t = u @ map lower_char q @ t'')"
proof
  have idem: "\<And>w. map lower_char (map lower_char w) = map lower_char w"
    by (simp add: lower_char_idem)
  {
    assume "\<exists>u w t''. map lower_char t = u @ w @ t'' \<and> map lower_char w = map lower_char q"
    then obtain u w t'' where e: "map lower_char t = u @ (w @ t'')" and w: "map lower_char w = map lower_char q"
      by auto
    from e obtain a b where "t = a @ b" "u = map lower_char a" "w @ t'' = map lower_char b"
      unfolding map_eq_append_conv by blast
    then obtain w0 b' where "w = map lower_char w0"
      unfolding append_eq_map_conv by blast
    with w idem[of w0] have "w = map lower_char q" by simp
    with e show "\<exists>u t''. map lower_char t = u @ map lower_char q @ t''" by blast
  }
  {
    assume "\<exists>u t''. map lower_char t = u @ map lower_char q @ t''"
    then obtain u t'' where "map lower_char t = u @ map lower_char q @ t''" by blast
    with idem[of q] show "\<exists>u w t''. map lower_char t = u @ w @ t'' \<and> map lower_char w = map lower_char q"
      by blast
  }
qed

lemma like_infix:
  assumes "\<forall>p\<in>set q. p \<noteq> CHR ''%'' \<and> p \<noteq> CHR ''_''"
    and "\<forall>d\<in>set q. (of_char d :: nat) < 128"
  shows "like (''%'' @ toLowerCase q @ ''%'') (map lower_char t)
           \<longleftrightarrow> sublist (map latin1_lower_char q) (map latin1_lower_char t)"
proof -
  have "like (''%'' @ toLowerCase q @ ''%'') (map lower_char t)
        \<longleftrightarrow> (\<exists>u t'. map lower_char t = u @ t'
              \<and> (\<exists>w t''. t' = w @ t'' \<and> map lower_char w = map lower_char q))"
    unfolding toLowerCase_ascii[OF assms(2)] like_term_split like_lowered_literal[OF assms(1)] ..
  also have "\<dots> \<longleftrightarrow> (\<exists>u w t''. map lower_char t = u @ w @ t''
                        \<and> map lower_char w = map lower_char q)"
    by blast
  also have "\<dots> \<longleftrightarrow> (\<exists>u t''. map lower_char t = u @ map lower_char q @ t'')"
    by (rule lowered_infix)
  also have "\<dots> \<longleftrightarrow> sublist (map lower_char q) (map lower_char t)"
    unfolding sublist_def ..
  finally show ?thesis unfolding contains_ascii_term[OF assms(2)] .
qed

lemma sql_like_contains:
  assumes "\<forall>p\<in>set q. p \<noteq> CHR ''%'' \<and> p \<noteq> CHR ''_''"
    and "\<forall>d\<in>set q. (of_char d :: nat) < 128"
  shows "sql_like (sql_lower v) (''%'' @ toLowerCase q @ ''%'') = contains_ci q v"
proof (cases v)
  case None
  then show ?thesis by (simp add: sql_like_def sql_lower_def contains_ci_def)
next
  case (Some t)
  with like_infix[OF assms, of t] show ?thesis
    by (simp add: sql_like_def sql_lower_def contains_ci_def)
qed

text \<open>
  A term with an accented letter is outside the theorem below. \<open>toLowerCase\<close> lowers the
  capital of the term, \<open>LOWER\<close> leaves the capitals of the column, and \<open>LIKE\<close> tells the
  two apart: the term of the one capital letter C with cedilla finds the norm written
  in small letters and misses the norm written in capitals, which contains the term.
\<close>

lemma accented_term_misses_capitals:
  "get_normas (Some (QStr [CHR 0xC7])) None accent_store
     = (Inr \<lparr>status = 200,
            body = Data [Norma \<lparr>n_id = 1, n_nome = Some [CHR ''a'', CHR 0xE7, CHR 0xE3, CHR ''o''],
                                n_link = None, n_preambulo = None\<rparr>]\<rparr>, accent_store)
   \<and> contains_ci [CHR 0xC7] (Some [CHR ''A'', CHR 0xC7, CHR 0xC3, CHR ''O''])"
  by code_simp

text \<open>
  C2 as stated fails: the term \<open>_\<close> is a wildcard of \<open>LIKE\<close>, so the listing for \<open>q = _\<close>
  returns both norms of the sample store, although no field of either contains an
  underscore.
\<close>

theorem search_term_wildcard_counterexample:
  "get_normas (Some (QStr ''_'')) None sample_store
     = (Inr \<lparr>status = 200,
            body = Data [Norma \<lparr>n_id = 2, n_nome = Some ''Decreto 47749'', n_link = None,
                                n_preambulo = Some ''Supressao de vegetacao''\<rparr>,
                         Norma \<lparr>n_id = 1, n_nome = Some ''Lei 9985'', n_link = Some ''http://a'',
                                n_preambulo = Some ''Institui o SNUC''\<rparr>]\<rparr>, sample_store)
   \<and> filter (\<lambda>n. contains_ci ''_'' (n_nome n) \<or> contains_ci ''_'' (n_link n)
                  \<or> contains_ci ''_'' (n_preambulo n)) (normas sample_store) = []"
  by code_simp

text \<open>
  C2, amended. For every store and every non-empty search term made of ASCII characters
  other than \<open>%\<close> and \<open>_\<close>, the listing for that term is 200 with exactly the norms (each
  as often as it is stored) whose nome, link or preambulo contains the term as a
  case-insensitive substring, ordered by nome ascending. With no search term, every norm
  is returned in that order.
\<close>

theorem search_normas_literal_term:
  assumes "q \<noteq> []"
    and "\<forall>c\<in>set q. c \<noteq> CHR ''%'' \<and> c \<noteq> CHR ''_''"
    and "\<forall>c\<in>set q. (of_char c :: nat) < 128"
  shows "(\<exists>rs. get_normas (Some (QStr q)) None s
                = (Inr \<lparr>status = 200, body = Data (map Norma rs)\<rparr>, s)
             \<and> mset rs = mset (filter (\<lambda>n. contains_ci q (n_nome n) \<or> contains_ci q (n_link n)
                                       \<or> contains_ci q (n_preambulo n)) (normas s))
             \<and> sorted (map n_nome rs))
       \<and> (\<exists>rs. get_normas None None s = (Inr \<lparr>status = 200, body = Data (map Norma rs)\<rparr>, s)
             \<and> mset rs = mset (normas s) \<and> sorted (map n_nome rs))"
proof -
  let ?pat = "''%'' @ toLowerCase q @ ''%''"
  let ?hit = "\<lambda>n. contains_ci q (n_nome n) \<or> contains_ci q (n_link n) \<or> contains_ci q (n_preambulo n)"
  have m: "norma_matches ?pat ?pat ?pat = ?hit"
    unfolding norma_matches_def sql_like_contains[OF assms(2) assms(3)] ..
  let ?rs = "sort_key n_nome (filter ?hit (normas s))"
  have 1: "get_normas (Some (QStr q)) None s
             = (Inr \<lparr>status = 200, body = Data (map Norma ?rs)\<rparr>, s)"
    using assms(1) by (simp add: get_normas_def db_execute_def send_rows_def m del: append.simps)
  have 2: "mset ?rs = mset (filter ?hit (normas s))" by simp
  have 3: "sorted (map n_nome ?rs)" by simp
  have a: "\<exists>rs. get_normas (Some (QStr q)) None s
                = (Inr \<lparr>status = 200, body = Data (map Norma rs)\<rparr>, s)
             \<and> mset rs = mset (filter ?hit (normas s)) \<and> sorted (map n_nome rs)"
    using 1 2 3 by (intro exI[of _ ?rs] conjI)
  let ?all = "sort_key n_nome (normas s)"
  have 4: "get_normas None None s = (Inr \<lparr>status = 200, body = Data (map Norma ?all)\<rparr>, s)"
    by (simp add: get_normas_def db_execute_def send_rows_def)
  have 5: "mset ?all = mset (normas s)" by simp
  have 6: "sorted (map n_nome ?all)" by simp
  have b: "\<exists>rs. get_normas None None s = (Inr \<lparr>status = 200, body = Data (map Norma rs)\<rparr>, s)
             \<and> mset rs = mset (normas s) \<and> sorted (map n_nome rs)"
    using 4 5 6 by (intro exI[of _ ?all] conjI)
  from a b show ?thesis by (intro conjI)
qed

theorem search_normas_literal_term_witness:
  "get_normas (Some (QStr ''snuc'')) None sample_store
     = (Inr \<lparr>status = 200,
            body = Data [Norma \<lparr>n_id = 1, n_nome = Some ''Lei 9985'', n_link = Some ''http://a'',
                                n_preambulo = Some ''Institui o SNUC''\<rparr>]\<rparr>, sample_store)"
proof -
  have h: "''snuc'' \<noteq> []" "\<forall>c\<in>set ''snuc''. c \<noteq> CHR ''%'' \<and> c \<noteq> CHR ''_''"
    "\<forall>c\<in>set ''snuc''. (of_char c :: nat) < 128"
    by simp_all
  have f: "filter (\<lambda>n. contains_ci ''snuc'' (n_nome n) \<or> contains_ci ''snuc'' (n_link n)
                  \<or> contains_ci ''snuc'' (n_preambulo n)) (normas sample_store)
           = [\<lparr>n_id = 1, n_nome = Some ''Lei 9985'', n_link = Some ''http://a'',
                n_preambulo = Some ''Institui o SNUC''\<rparr>]"
    by code_simp
  from search_normas_literal_term[OF h, of sample_store]
  obtain rs where g: "get_normas (Some (QStr ''snuc'')) None sample_store
                = (Inr \<lparr>status = 200, body = Data (map Norma rs)\<rparr>, sample_store)"
    and ms: "mset rs = mset (filter (\<lambda>n. contains_ci ''snuc'' (n_nome n)
                \<or> contains_ci ''snuc'' (n_link n)
                \<or> contains_ci ''snuc'' (n_preambulo n)) (normas sample_store))"
    by blast
  from ms have "mset rs = {#\<lparr>n_id = 1, n_nome = Some ''Lei 9985'', n_link = Some ''http://a'',
                n_preambulo = Some ''Institui o SNUC''\<rparr>#}"
    unfolding f by simp
  then have "rs = [\<lparr>n_id = 1, n_nome = Some ''Lei 9985'', n_link = Some ''http://a'',
                n_preambulo = Some ''Institui o SNUC''\<rparr>]"
    by (simp only: mset_single_iff)
  with g show ?thesis by simp
qed

subsection \<open>The empty search term\<close>

text \<open>
  The pattern of an empty term would be \<open>%%\<close>, which matches every text and no NULL: a
  filter built from it keeps the norms that have a text in one of the three columns.
\<close>

lemma empty_term_pattern:
  "norma_matches (''%'' @ toLowerCase [] @ ''%'') (''%'' @ toLowerCase [] @ ''%'')
     (''%'' @ toLowerCase [] @ ''%'') n
   \<longleftrightarrow> \<not> (n_nome n = None \<and> n_link n = None \<and> n_preambulo n = None)"
proof -
  have "\<And>t. like ''%%'' t"
    using like_percent_split[of "''%''"] like_percent_all by auto
  then have "\<And>v. sql_like (sql_lower v) ''%%'' = (v \<noteq> None)"
    by (simp add: sql_like_def sql_lower_def split: option.splits)
  then show ?thesis by (simp add: norma_matches_def toLowerCase_def)
qed

text \<open>
  C9 as stated fails in its last clause: the filter of the empty term would not match
  every row. The only norm of this store has NULL in its three text columns: the request
  with the empty term returns it, and the statement filtered by \<open>%%\<close> returns no row.
\<close>

theorem empty_term_filter_counterexample:
  "get_normas (Some (QStr [])) None null_store
     = (Inr \<lparr>status = 200,
            body = Data [Norma \<lparr>n_id = 1, n_nome = None, n_link = None, n_preambulo = None\<rparr>]\<rparr>,
        null_store)
   \<and> rows (fst (run (SELECT_normas_WHERE (''%'' @ toLowerCase [] @ ''%'')
                   (''%'' @ toLowerCase [] @ ''%'') (''%'' @ toLowerCase [] @ ''%'')) null_store))
     = []"
  by code_simp

text \<open>
  C9, amended. A request whose \<open>q\<close> is the empty string is answered as a request without
  \<open>q\<close>, whatever the store does: the term is falsy, no filter is built, and when the
  store answers, the response is 200 with all the norms ordered by name. The filter of
  the empty term is not applied; it would return, in the same order, only the norms that
  have a text and not NULL as nome, link or preambulo.
\<close>

theorem get_normas_empty_term:
  "get_normas (Some (QStr [])) failure s = get_normas None failure s
   \<and> (\<exists>rs. get_normas (Some (QStr [])) None s
              = (Inr \<lparr>status = 200, body = Data (map Norma rs)\<rparr>, s)
           \<and> mset rs = mset (normas s) \<and> sorted (map n_nome rs))
   \<and> rows (fst (run (SELECT_normas_WHERE (''%'' @ toLowerCase [] @ ''%'')
                   (''%'' @ toLowerCase [] @ ''%'') (''%'' @ toLowerCase [] @ ''%'')) s))
     = map Norma (sort_key n_nome
         (filter (\<lambda>n. \<not> (n_nome n = None \<and> n_link n = None \<and> n_preambulo n = None))
            (normas s)))"
proof -
  have "get_normas (Some (QStr [])) None s
          = (Inr \<lparr>status = 200, body = Data (map Norma (sort_key n_nome (normas s)))\<rparr>, s)"
    by (simp add: get_normas_def db_execute_def send_rows_def)
  moreover have "mset (sort_key n_nome (normas s)) = mset (normas s)" by simp
  moreover have "sorted (map n_nome (sort_key n_nome (normas s)))" by simp
  ultimately have b: "\<exists>rs. get_normas (Some (QStr [])) None s
              = (Inr \<lparr>status = 200, body = Data (map Norma rs)\<rparr>, s)
           \<and> mset rs = mset (normas s) \<and> sorted (map n_nome rs)"
    by blast
  have a: "get_normas (Some (QStr [])) failure s = get_normas None failure s"
    by (simp add: get_normas_def)
  have m: "norma_matches (''%'' @ toLowerCase [] @ ''%'') (''%'' @ toLowerCase [] @ ''%'')
             (''%'' @ toLowerCase [] @ ''%'')
           = (\<lambda>n. \<not> (n_nome n = None \<and> n_link n = None \<and> n_preambulo n = None))"
    by (rule ext) (rule empty_term_pattern)
  have c: "rows (fst (run (SELECT_normas_WHERE (''%'' @ toLowerCase [] @ ''%'')
                   (''%'' @ toLowerCase [] @ ''%'') (''%'' @ toLowerCase [] @ ''%'')) s))
     = map Norma (sort_key n_nome
         (filter (\<lambda>n. \<not> (n_nome n = None \<and> n_link n = None \<and> n_preambulo n = None))
            (normas s)))"
    unfolding run.simps m by simp
  from a b c show ?thesis by (intro conjI)
qed

theorem get_normas_empty_term_witness:
  "get_normas (Some (QStr [])) None sample_store = get_normas None None sample_store
   \<and> length (rows (fst (run (SELECT_normas_WHERE (''%'' @ toLowerCase [] @ ''%'')
                   (''%'' @ toLowerCase [] @ ''%'') (''%'' @ toLowerCase [] @ ''%''))
                   sample_store))) = 2"
proof -
  note t = get_normas_empty_term[of None sample_store]
  from t have 1: "get_normas (Some (QStr [])) None sample_store = get_normas None None sample_store"
    by (elim conjE)
  from t have "rows (fst (run (SELECT_normas_WHERE (''%'' @ toLowerCase [] @ ''%'')
                   (''%'' @ toLowerCase [] @ ''%'') (''%'' @ toLowerCase [] @ ''%'')) sample_store))
     = map Norma (sort_key n_nome
         (filter (\<lambda>n. \<not> (n_nome n = None \<and> n_link n = None \<and> n_preambulo n = None))
            (normas sample_store)))"
    by (elim conjE)
  then have 2: "length (rows (fst (run (SELECT_normas_WHERE (''%'' @ toLowerCase [] @ ''%'')
                   (''%'' @ toLowerCase [] @ ''%'') (''%'' @ toLowerCase [] @ ''%''))
                   sample_store))) = 2"
    by (simp only: length_map length_sort) (simp add: sample_store_def)
  from 1 2 show ?thesis by (intro conjI)
qed

section \<open>Properties of the WFS proxy routes\<close>

text \<open>
  C4 as stated fails twice. A \<open>bbox\<close> parameter that is present with the empty string as
  its value is falsy and is not appended, so the URL requested is not the one with
  \<open>&bbox=\<close> at its end. And an upstream answer that is not JSON, such as an XML exception
  report, is not relayed unchanged: the route answers 200 with the JSON string that
  holds the text.
\<close>

theorem wfs_relay_counterexample:
  "fst (get_sisema_unidades_conservacao (\<lambda>url. Inr (JSON_document (JObject [])))
          (Some (QStr [])) None)
     \<noteq> ''http://geoserver.meioambiente.mg.gov.br/ows?service=WFS&version=2.0.0&request=GetFeature&typename=ide_2010_mg_unidades_conservacao_estaduais_pol&outputFormat=application/json''
        @ present_appended ''bbox'' (Some []) @ present_appended ''cql_filter'' None
   \<and> snd (get_sisema_unidades_conservacao (\<lambda>url. Inr (Other_text ''<ows:ExceptionReport/>''))
          None None)
     = \<lparr>status = 200, body = Json (JString ''<ows:ExceptionReport/>'')\<rparr>
   \<and> JSON_document (JString ''<ows:ExceptionReport/>'') \<noteq> Other_text ''<ows:ExceptionReport/>''"
  by (simp add: get_sisema_unidades_conservacao_def wfs_url_def WFS_BASE_URL_def
      present_appended_def axios_get_def)

text \<open>
  C4, amended. Each of the two routes requests the fixed URL (base URL, service WFS,
  version 2.0.0, request GetFeature, the typename of the route, GeoJSON output), followed
  by \<open>&bbox=\<close> and by \<open>&cql_filter=\<close> with what the caller gave, unescaped, exactly when the
  parameter is truthy: a parameter given once is appended as it came when it is not the
  empty string, and a parameter given several times is appended as its values joined by
  commas. When the upstream request succeeds the response is 200 with the serialisation
  of what axios parsed: the JSON value of the upstream body, or, for a body that is not
  JSON, the JSON string holding its text. When the upstream request fails, whatever its
  error, the response is status 500 with the fixed message of the route.
\<close>

theorem wfs_proxy_routes:
  "fst (get_sisema_unidades_conservacao upstream bbox cql_filter)
     = ''http://geoserver.meioambiente.mg.gov.br/ows?service=WFS&version=2.0.0&request=GetFeature&typename=ide_2010_mg_unidades_conservacao_estaduais_pol&outputFormat=application/json''
        @ truthy_appended ''bbox'' bbox @ truthy_appended ''cql_filter'' cql_filter
   \<and> snd (get_sisema_unidades_conservacao upstream bbox cql_filter)
     = (case upstream (fst (get_sisema_unidades_conservacao upstream bbox cql_filter)) of
          Inr (JSON_document v) \<Rightarrow> \<lparr>status = 200, body = Json v\<rparr>
        | Inr (Other_text t) \<Rightarrow> \<lparr>status = 200, body = Json (JString t)\<rparr>
        | Inl message \<Rightarrow> \<lparr>status = 500, body = Error ''Falha ao obter dados de UCs do SISEMA.''\<rparr>)
   \<and> fst (get_sisema_imoveis_compensacao upstream bbox cql_filter)
     = ''http://geoserver.meioambiente.mg.gov.br/ows?service=WFS&version=2.0.0&request=GetFeature&typename=ide_2104_mg_imoveis_disponiveis_compensacao_ambiental_pto&outputFormat=application/json''
        @ truthy_appended ''bbox'' bbox @ truthy_appended ''cql_filter'' cql_filter
   \<and> snd (get_sisema_imoveis_compensacao upstream bbox cql_filter)
     = (case upstream (fst (get_sisema_imoveis_compensacao upstream bbox cql_filter)) of
          Inr (JSON_document v) \<Rightarrow> \<lparr>status = 200, body = Json v\<rparr>
        | Inr (Other_text t) \<Rightarrow> \<lparr>status = 200, body = Json (JString t)\<rparr>
        | Inl message \<Rightarrow>
            \<lparr>status = 500,
             body = Error (''Falha ao obter dados de Im'' @ [CHR 0xF3] @ ''veis do SISEMA.'')\<rparr>)"
proof -
  have a: "\<And>n v. (if truthy v then ''&'' @ n @ ''='' @ template v else []) = truthy_appended n v"
  proof -
    fix n v show "(if truthy v then ''&'' @ n @ ''='' @ template v else []) = truthy_appended n v"
    proof (cases v)
      case None
      then show ?thesis by simp
    next
      case (Some x)
      then show ?thesis by (cases x) simp_all
    qed
  qed
  have u: "\<And>T. wfs_url T bbox cql_filter
        = WFS_BASE_URL @ ''?service=WFS&version=2.0.0&request=GetFeature&typename='' @ T
            @ ''&outputFormat=application/json''
            @ truthy_appended ''bbox'' bbox @ truthy_appended ''cql_filter'' cql_filter"
    unfolding a[symmetric] by (simp add: wfs_url_def Let_def del: append.simps)
  have r: "\<And>url ok ko. (case axios_get upstream url of Inr data \<Rightarrow> ok data | Inl message \<Rightarrow> ko)
        = (case upstream url of
             Inr (JSON_document v) \<Rightarrow> ok v
           | Inr (Other_text t) \<Rightarrow> ok (JString t)
           | Inl message \<Rightarrow> ko)"
    by (simp add: axios_get_def split: sum.splits upstream_body.splits)
  show ?thesis
    by (simp add: get_sisema_unidades_conservacao_def get_sisema_imoveis_compensacao_def u r
        WFS_BASE_URL_def Let_def)
qed

theorem wfs_proxy_routes_witness:
  "get_sisema_unidades_conservacao
       (\<lambda>url. Inr (JSON_document (JObject [(''type'', JString ''FeatureCollection''),
                                             (''features'', JArray [])])))
       (Some (QStr ''-44,-20,-43,-19'')) None
     = (''http://geoserver.meioambiente.mg.gov.br/ows?service=WFS&version=2.0.0&request=GetFeature&typename=ide_2010_mg_unidades_conservacao_estaduais_pol&outputFormat=application/json&bbox=-44,-20,-43,-19'',
        \<lparr>status = 200, body = Json (JObject [(''type'', JString ''FeatureCollection''),
                                             (''features'', JArray [])])\<rparr>)
   \<and> snd (get_sisema_imoveis_compensacao (\<lambda>url. Inl ''ECONNREFUSED'')
           (Some (QArr [[], []])) None)
     = \<lparr>status = 500,
        body = Error (''Falha ao obter dados de Im'' @ [CHR 0xF3] @ ''veis do SISEMA.'')\<rparr>
   \<and> fst (get_sisema_imoveis_compensacao (\<lambda>url. Inl ''ECONNREFUSED'')
           (Some (QArr [[], []])) None)
     = ''http://geoserver.meioambiente.mg.gov.br/ows?service=WFS&version=2.0.0&request=GetFeature&typename=ide_2104_mg_imoveis_disponiveis_compensacao_ambiental_pto&outputFormat=application/json&bbox=,''"
proof -
  note w = wfs_proxy_routes[of "\<lambda>url. Inr (JSON_document (JObject
      [(''type'', JString ''FeatureCollection''), (''features'', JArray [])]))"
      "Some (QStr ''-44,-20,-43,-19'')" None]
  note v = wfs_proxy_routes[of "\<lambda>url. Inl ''ECONNREFUSED''" "Some (QArr [[], []])" None]
  have 1: "get_sisema_unidades_conservacao
       (\<lambda>url. Inr (JSON_document (JObject [(''type'', JString ''FeatureCollection''),
                                             (''features'', JArray [])])))
       (Some (QStr ''-44,-20,-43,-19'')) None
     = (''http://geoserver.meioambiente.mg.gov.br/ows?service=WFS&version=2.0.0&request=GetFeature&typename=ide_2010_mg_unidades_conservacao_estaduais_pol&outputFormat=application/json&bbox=-44,-20,-43,-19'',
        \<lparr>status = 200, body = Json (JObject [(''type'', JString ''FeatureCollection''),
                                             (''features'', JArray [])])\<rparr>)"
    using w by (simp add: prod_eq_iff)
  have 2: "snd (get_sisema_imoveis_compensacao (\<lambda>url. Inl ''ECONNREFUSED'')
           (Some (QArr [[], []])) None)
     = \<lparr>status = 500,
        body = Error (''Falha ao obter dados de Im'' @ [CHR 0xF3] @ ''veis do SISEMA.'')\<rparr>"
    using v by simp
  have 3: "fst (get_sisema_imoveis_compensacao (\<lambda>url. Inl ''ECONNREFUSED'')
           (Some (QArr [[], []])) None)
     = ''http://geoserver.meioambiente.mg.gov.br/ows?service=WFS&version=2.0.0&request=GetFeature&typename=ide_2104_mg_imoveis_disponiveis_compensacao_ambiental_pto&outputFormat=application/json&bbox=,''"
    using v by simp
  from 1 2 3 show ?thesis by (intro conjI)
qed

section \<open>Properties of the frontend controller\<close>

lemma of_char_upper:
  "(of_char (upper_char c) :: nat) =
     (if 97 \<le> (of_char c :: nat) \<and> (of_char c :: nat) \<le> 122 then of_char c - 32 else of_char c)"
  by (auto simp add: upper_char_def Let_def)

lemma lower_upper: "lower_char (upper_char c) = lower_char c"
  unfolding char_eq_nat[of "lower_char (upper_char c)"] of_char_lower of_char_upper
  by auto

lemma upper_lower: "upper_char (lower_char c) = upper_char c"
  unfolding char_eq_nat[of "upper_char (lower_char c)"] of_char_lower of_char_upper
  by auto

lemma toUpperCase_eq_iff: "toUpperCase a = toUpperCase b \<longleftrightarrow> ci_equal a b"
proof -
  have lu: "\<And>x. map lower_char (map upper_char x) = map lower_char x"
    by (simp add: lower_upper)
  have ul: "\<And>x. map upper_char (map lower_char x) = map upper_char x"
    by (simp add: upper_lower)
  show ?thesis
  proof
    assume "toUpperCase a = toUpperCase b"
    then have "map lower_char (map upper_char a) = map lower_char (map upper_char b)"
      by (simp only: toUpperCase_def)
    then show "ci_equal a b" unfolding lu ci_equal_def .
  next
    assume "ci_equal a b"
    then have "map upper_char (map lower_char a) = map upper_char (map lower_char b)"
      by (simp only: ci_equal_def)
    then show "toUpperCase a = toUpperCase b" unfolding ul toUpperCase_def .
  qed
qed

lemma toUpperCase_literals:
  "toUpperCase x = ''SNUC'' \<longleftrightarrow> ci_equal x ''SNUC''"
  "toUpperCase x = ''PAGAMENTO'' \<longleftrightarrow> ci_equal x ''PAGAMENTO''"
proof -
  have "toUpperCase ''SNUC'' = ''SNUC''" "toUpperCase ''PAGAMENTO'' = ''PAGAMENTO''"
    by code_simp+
  with toUpperCase_eq_iff[of x "''SNUC''"] toUpperCase_eq_iff[of x "''PAGAMENTO''"]
  show "toUpperCase x = ''SNUC'' \<longleftrightarrow> ci_equal x ''SNUC''"
    "toUpperCase x = ''PAGAMENTO'' \<longleftrightarrow> ci_equal x ''PAGAMENTO''"
    by simp_all
qed

lemma find_by_key:
  "distinct (map key xs) \<Longrightarrow> x \<in> set xs \<Longrightarrow> find (\<lambda>y. key y = key x) xs = Some x"
proof (induction xs)
  case Nil
  then show ?case by simp
next
  case (Cons a xs)
  show ?case
  proof (cases "a = x")
    case True
    then show ?thesis by simp
  next
    case False
    with Cons.prems have x: "x \<in> set xs" by simp
    then have "key x \<in> key ` set xs" by (rule imageI)
    with Cons.prems(1) have "key a \<noteq> key x" by auto
    with Cons.IH x Cons.prems(1) show ?thesis by simp
  qed
qed

lemma displayModalidades_data:
  "loaded_tipos (displayModalidades tipoId fetched pg) = loaded_tipos pg
   \<and> loaded_modalidades (displayModalidades tipoId fetched pg) = loaded_modalidades pg
   \<and> siscalBtnContainer_display (displayModalidades tipoId fetched pg) = DisplayNone"
  by (simp add: displayModalidades_def Let_def split: option.splits)

lemma displayModalidades_items:
  "filter (\<lambda>m. loose_eq (m_tipo_id m) tipoId) (loaded_modalidades pg) \<noteq> [] \<Longrightarrow>
   modalidadesList (displayModalidades tipoId (Some ns) pg)
     = Items (map (\<lambda>modalidade. \<lparr>li_textContent = text_of (m_nome modalidade),
                                   li_id = m_id modalidade, li_active = False\<rparr>)
               (filter (\<lambda>m. loose_eq (m_tipo_id m) tipoId) (loaded_modalidades pg)))"
  by (simp add: displayModalidades_def Let_def split: option.splits)

lemma displayModalidades_ids:
  "modalidadesList (displayModalidades tipoId fetched pg) = Items lis \<Longrightarrow>
   it \<in> set lis \<Longrightarrow> li_id it \<in> m_id ` set (loaded_modalidades pg)"
  by (auto simp add: displayModalidades_def Let_def split: option.splits if_splits)

lemma displayDetalhes_button:
  assumes "find (\<lambda>x. m_id x = mid) (loaded_modalidades pg) = Some m"
    and "find (\<lambda>t. Some (t_id t) = m_tipo_id m) (loaded_tipos pg) = Some t"
  shows "siscalBtnContainer_display (snd (displayDetalhes mid pg)) = DisplayBlock
     \<longleftrightarrow> (\<exists>tn mn. t_nome t = Some tn \<and> m_nome m = Some mn
            \<and> toUpperCase (trim tn) = ''SNUC'' \<and> toUpperCase (trim mn) = ''PAGAMENTO'')"
  by (simp add: displayDetalhes_def lookup_detalhes_def Let_def assms split: option.splits)

lemma displayDetalhes_missing:
  "mid \<notin> m_id ` set (loaded_modalidades pg) \<Longrightarrow>
   displayDetalhes mid pg = (Some (TypeError ''Cannot read properties of undefined''), pg)"
proof -
  assume "mid \<notin> m_id ` set (loaded_modalidades pg)"
  then have "find (\<lambda>m. m_id m = mid) (loaded_modalidades pg) = None"
    unfolding find_None_iff by blast
  then show ?thesis by (simp add: displayDetalhes_def lookup_detalhes_def)
qed

lemma lookup_guard:
  assumes "lookup_detalhes mid pg = Inr (mo, to)"
  shows "mo \<noteq> None"
proof (cases "find (\<lambda>m. m_id m = mid) (loaded_modalidades pg)")
  case None
  then have "lookup_detalhes mid pg = Inl (TypeError ''Cannot read properties of undefined'')"
    by (simp add: lookup_detalhes_def)
  with assms show ?thesis by simp
next
  case (Some a)
  then have "lookup_detalhes mid pg
     = Inr (Some a, find (\<lambda>t. Some (t_id t) = m_tipo_id a) (loaded_tipos pg))"
    by (simp add: lookup_detalhes_def)
  with assms have "mo = Some a" by simp
  then show ?thesis by simp
qed

lemma displayDetalhes_completes:
  "fst (displayDetalhes mid pg) = None \<Longrightarrow> mid \<in> m_id ` set (loaded_modalidades pg)"
proof (rule ccontr)
  assume a: "fst (displayDetalhes mid pg) = None" and "mid \<notin> m_id ` set (loaded_modalidades pg)"
  then have "find (\<lambda>m. m_id m = mid) (loaded_modalidades pg) = None"
    unfolding find_None_iff by blast
  then have "fst (displayDetalhes mid pg) = Some (TypeError ''Cannot read properties of undefined'')"
    by (simp add: displayDetalhes_def lookup_detalhes_def)
  with a show False by simp
qed

lemma click_item_rendered:
  assumes "modalidadesList pg = Items lis" and "k < length lis"
  shows "click_item k pg
     = displayDetalhes (li_id (lis ! k))
         (pg\<lparr>modalidadesList := Items ((map (\<lambda>item. item\<lparr>li_active := False\<rparr>) lis)
            [k := (map (\<lambda>item. item\<lparr>li_active := False\<rparr>) lis ! k)\<lparr>li_active := True\<rparr>])\<rparr>)"
  using assms by (simp add: click_item_def Let_def)

lemma loose_eq_Some: "loose_eq v (Some j) = (v = Some j)"
  by (cases v) auto

lemma click_rendered_item:
  assumes dt: "distinct (map t_id (loaded_tipos pg))"
    and dm: "distinct (map m_id (loaded_modalidades pg))"
    and t: "t \<in> set (loaded_tipos pg)" "t_id t = j"
    and k: "k < length (filter (\<lambda>m. m_tipo_id m = Some j) (loaded_modalidades pg))"
  shows "siscalBtnContainer_display
           (snd (click_item k (displayModalidades (Some j) (Some ns) pg))) = DisplayBlock
         \<longleftrightarrow> (\<exists>tn mn. t_nome t = Some tn
                \<and> m_nome (filter (\<lambda>m. m_tipo_id m = Some j) (loaded_modalidades pg) ! k) = Some mn
                \<and> toUpperCase (trim tn) = ''SNUC'' \<and> toUpperCase (trim mn) = ''PAGAMENTO'')"
proof -
  let ?ms = "filter (\<lambda>m. m_tipo_id m = Some j) (loaded_modalidades pg)"
  let ?m = "?ms ! k"
  let ?mk = "\<lambda>modalidade. \<lparr>li_textContent = text_of (m_nome modalidade),
                              li_id = m_id modalidade, li_active = False\<rparr>"
  let ?pg1 = "displayModalidades (Some j) (Some ns) pg"
  from k have "?m \<in> set ?ms" by (rule nth_mem)
  then have m: "?m \<in> set (loaded_modalidades pg)" "m_tipo_id ?m = Some j" by simp_all
  have f: "filter (\<lambda>m. loose_eq (m_tipo_id m) (Some j)) (loaded_modalidades pg) = ?ms"
    by (simp only: loose_eq_Some)
  from k have ne: "?ms \<noteq> []" by auto
  have l: "modalidadesList ?pg1 = Items (map ?mk ?ms)"
    using displayModalidades_items[of "Some j" pg ns] ne unfolding f by simp
  have kl: "k < length (map ?mk ?ms)" using k by simp
  have id: "li_id (map ?mk ?ms ! k) = m_id ?m" using k by simp
  let ?pg2 = "?pg1\<lparr>modalidadesList := Items ((map (\<lambda>item. item\<lparr>li_active := False\<rparr>) (map ?mk ?ms))
            [k := (map (\<lambda>item. item\<lparr>li_active := False\<rparr>) (map ?mk ?ms) ! k)\<lparr>li_active := True\<rparr>])\<rparr>"
  have c: "click_item k ?pg1 = displayDetalhes (m_id ?m) ?pg2"
    using click_item_rendered[OF l kl] unfolding id .
  have d: "loaded_tipos ?pg2 = loaded_tipos pg" "loaded_modalidades ?pg2 = loaded_modalidades pg"
    using displayModalidades_data[of "Some j" "Some ns" pg] by simp_all
  have fm: "find (\<lambda>x. m_id x = m_id ?m) (loaded_modalidades ?pg2) = Some ?m"
    unfolding d by (rule find_by_key[OF dm m(1)])
  have "find (\<lambda>y. t_id y = t_id t) (loaded_tipos pg) = Some t"
    by (rule find_by_key[OF dt t(1)])
  then have ft: "find (\<lambda>t. Some (t_id t) = m_tipo_id ?m) (loaded_tipos ?pg2) = Some t"
    unfolding d m(2) t(2) by simp
  show ?thesis
    unfolding c by (rule displayDetalhes_button[OF fm ft])
qed

text \<open>
  C8 as stated fails: on the sample page the first type is named \<open>snuc\<close> between two
  spaces, which is not equal to \<open>SNUC\<close> in any case, and the name of its first modality
  is \<open>Pagamento\<close>; selecting the type and clicking that modality shows the button.
\<close>

theorem siscal_button_trim_counterexample:
  "siscalBtnContainer_display
     (snd (click_item 0 (displayModalidades (Some 1) (Some []) sample_page))) = DisplayBlock
   \<and> t_nome (loaded_tipos sample_page ! 0) = Some '' snuc ''
   \<and> \<not> ci_equal '' snuc '' ''SNUC''"
  by code_simp

text \<open>
  C8, amended. Selecting a type hides the button. After a type of the page is selected
  and its norms are fetched, clicking the \<open>k\<close>-th modality of the list shows the button
  if and only if the name of the selected type, with the white space at its two ends
  removed, equals \<open>SNUC\<close> up to case and the name of the clicked modality, trimmed
  likewise, equals \<open>PAGAMENTO\<close> up to case; after any other click the button is hidden.
  Ids are unique in the loaded arrays, as they are primary keys of the store.
\<close>

theorem siscal_button_shown_iff:
  assumes "distinct (map t_id (loaded_tipos pg))"
    and "distinct (map m_id (loaded_modalidades pg))"
    and "t \<in> set (loaded_tipos pg)" and "t_id t = j"
    and "k < length (filter (\<lambda>m. m_tipo_id m = Some j) (loaded_modalidades pg))"
  shows "siscalBtnContainer_display (displayModalidades tipoId fetched pg) = DisplayNone
       \<and> (siscalBtnContainer_display
            (snd (click_item k (displayModalidades (Some j) (Some ns) pg))) = DisplayBlock
          \<longleftrightarrow> (\<exists>tn mn. t_nome t = Some tn
                \<and> m_nome (filter (\<lambda>m. m_tipo_id m = Some j) (loaded_modalidades pg) ! k) = Some mn
                \<and> ci_equal (trim tn) ''SNUC'' \<and> ci_equal (trim mn) ''PAGAMENTO''))"
  using click_rendered_item[OF assms, of ns] displayModalidades_data[of tipoId fetched pg]
  unfolding toUpperCase_literals by (intro conjI) simp_all

theorem siscal_button_shown_iff_witness:
  "siscalBtnContainer_display
     (snd (click_item 1 (displayModalidades (Some 1) (Some []) sample_page))) \<noteq> DisplayBlock
   \<and> siscalBtnContainer_display
     (snd (click_item 0 (displayModalidades (Some 1) (Some []) sample_page))) = DisplayBlock"
proof -
  let ?t = "\<lparr>t_id = 1, t_nome = Some '' snuc ''\<rparr>"
  have h: "distinct (map t_id (loaded_tipos sample_page))"
    "distinct (map m_id (loaded_modalidades sample_page))"
    "?t \<in> set (loaded_tipos sample_page)" "t_id ?t = 1"
    by (simp_all add: sample_page_def)
  have k: "1 < length (filter (\<lambda>m. m_tipo_id m = Some 1) (loaded_modalidades sample_page))"
    "0 < length (filter (\<lambda>m. m_tipo_id m = Some 1) (loaded_modalidades sample_page))"
    by (simp_all add: sample_page_def)
  have n: "m_nome (filter (\<lambda>m. m_tipo_id m = Some 1) (loaded_modalidades sample_page) ! 1)
             = Some ''Doacao''"
    "m_nome (filter (\<lambda>m. m_tipo_id m = Some 1) (loaded_modalidades sample_page) ! 0)
             = Some ''Pagamento''"
    by (simp_all add: sample_page_def)
  have c: "\<not> ci_equal (trim ''Doacao'') ''PAGAMENTO''" "ci_equal (trim ''Pagamento'') ''PAGAMENTO''"
    "ci_equal (trim '' snuc '') ''SNUC''"
    by code_simp+
  from siscal_button_shown_iff[OF h k(1), of None None "[]"] n(1) c(1)
  have 1: "siscalBtnContainer_display
     (snd (click_item 1 (displayModalidades (Some 1) (Some []) sample_page))) \<noteq> DisplayBlock"
    by simp
  from siscal_button_shown_iff[OF h k(2), of None None "[]"] n(2) c(2) c(3)
  have 2: "siscalBtnContainer_display
     (snd (click_item 0 (displayModalidades (Some 1) (Some []) sample_page))) = DisplayBlock"
    by simp
  from 1 2 show ?thesis by (intro conjI)
qed

text \<open>
  C10. \<open>displayDetalhes\<close> completes without throwing only if the id it is given is the id
  of a loaded modality: for any other id it throws a TypeError on reading \<open>tipo_id\<close> and
  leaves the page as it was. Every id of an item that \<open>displayModalidades\<close> has rendered
  is the id of a loaded modality. Whenever the guard after the two lookups is reached,
  the modality is not missing, so only a missing type makes the function return early.
\<close>

theorem displayDetalhes_needs_loaded_id:
  "(fst (displayDetalhes mid pg) = None \<longrightarrow> mid \<in> m_id ` set (loaded_modalidades pg))
   \<and> (mid \<notin> m_id ` set (loaded_modalidades pg) \<longrightarrow>
        displayDetalhes mid pg = (Some (TypeError ''Cannot read properties of undefined''), pg))
   \<and> (\<forall>lis. modalidadesList (displayModalidades tipoId fetched pg) = Items lis \<longrightarrow>
        (\<forall>it\<in>set lis. li_id it
            \<in> m_id ` set (loaded_modalidades (displayModalidades tipoId fetched pg))))
   \<and> (\<forall>mo to. lookup_detalhes mid pg = Inr (mo, to) \<longrightarrow> mo \<noteq> None)"
proof (intro conjI allI impI ballI)
  assume "fst (displayDetalhes mid pg) = None"
  then show "mid \<in> m_id ` set (loaded_modalidades pg)" by (rule displayDetalhes_completes)
next
  assume "mid \<notin> m_id ` set (loaded_modalidades pg)"
  then show "displayDetalhes mid pg = (Some (TypeError ''Cannot read properties of undefined''), pg)"
    by (rule displayDetalhes_missing)
next
  fix lis it
  assume "modalidadesList (displayModalidades tipoId fetched pg) = Items lis" "it \<in> set lis"
  then have "li_id it \<in> m_id ` set (loaded_modalidades pg)" by (rule displayModalidades_ids)
  then show "li_id it \<in> m_id ` set (loaded_modalidades (displayModalidades tipoId fetched pg))"
    using displayModalidades_data[of tipoId fetched pg] by simp
next
  fix mo to
  assume "lookup_detalhes mid pg = Inr (mo, to)"
  then show "mo \<noteq> None" by (rule lookup_guard)
qed

theorem displayDetalhes_needs_loaded_id_witness:
  "displayDetalhes 99 sample_page
     = (Some (TypeError ''Cannot read properties of undefined''), sample_page)
   \<and> fst (displayDetalhes 2 sample_page) = None
   \<and> 2 \<in> m_id ` set (loaded_modalidades sample_page)"
proof -
  have a: "99 \<notin> m_id ` set (loaded_modalidades sample_page)"
    by (simp add: sample_page_def)
  have b: "fst (displayDetalhes 2 sample_page) = None" by code_simp
  from displayDetalhes_needs_loaded_id[of 99 sample_page None None] a
  have 1: "displayDetalhes 99 sample_page
     = (Some (TypeError ''Cannot read properties of undefined''), sample_page)"
    by blast
  from displayDetalhes_needs_loaded_id[of 2 sample_page None None] b
  have 2: "2 \<in> m_id ` set (loaded_modalidades sample_page)" by blast
  from 1 b 2 show ?thesis by (intro conjI)
qed

end
